theory Spec2Isabelle
  imports Complex_Main
begin

section \<open>Data model\<close>

text \<open>
  The analytics engine of \<^verbatim>\<open>posthog/api/action.py\<close> (class \<^verbatim>\<open>ActionViewSet\<close>).

  A \<^verbatim>\<open>datetime.date\<close> is its proleptic Gregorian ordinal, so that
  \<^verbatim>\<open>(date_to - date_from).days\<close> is the difference of two integers and
  \<^verbatim>\<open>d + relativedelta(days=1)\<close> is \<open>d + 1\<close>. A timestamp is the number of microseconds
  since midnight of ordinal 0, in the one time zone in which the store truncates timestamps to
  days and in which it turns a date used as a bound of a timestamp into the midnight that
  starts that date.
\<close>

type_synonym date = int
type_synonym datetime = int

definition day_us :: int where
  "day_us = 86400000000"

definition midnight :: "date \<Rightarrow> datetime" where
  "midnight d = d * day_us"

text \<open>\<^verbatim>\<open>functions.TruncDay('timestamp')\<close> and the \<^verbatim>\<open>.date()\<close> of a datetime.\<close>

definition date_of :: "datetime \<Rightarrow> date" where
  "date_of t = t div day_us"

definition TruncDay :: "datetime \<Rightarrow> datetime" where
  "TruncDay t = midnight (date_of t)"

text \<open>
  A scalar JSON value as Python sees it after decoding (numbers by their value). Compound
  property values are not modelled.
\<close>

datatype pyval = NoneV | BoolV bool | NumV rat | StrV string

fun truthy :: "pyval \<Rightarrow> bool" where
  "truthy NoneV = False"
| "truthy (BoolV b) = b"
| "truthy (NumV n) = (n \<noteq> 0)"
| "truthy (StrV s) = (s \<noteq> [])"

text \<open>
  A row of the Event Store as the querysets of \<^verbatim>\<open>_process_entity_for_events\<close> deliver it:
  the model's manager methods (not in this file) have already attached \<open>person_id\<close>.
\<close>

record event =
  ev_id :: nat
  distinct_id :: string
  person_id :: nat
  timestamp :: datetime
  properties :: "(string \<times> pyval) list"

record action =
  a_id :: nat
  a_team :: nat
  a_name :: string
  deleted :: bool

record person =
  p_id :: nat
  p_team :: nat
  p_properties :: "(string \<times> pyval) list"

text \<open>
  The exceptions the code can raise. \<open>KeyError k\<close> is the \<^verbatim>\<open>MultiValueDictKeyError\<close> (a
  \<^verbatim>\<open>KeyError\<close>) of \<^verbatim>\<open>request.GET[k]\<close> on a missing parameter \<open>k\<close>.
\<close>

datatype error = TypeError | KeyError string | ValueError

text \<open>
  An entry of the decoded \<^verbatim>\<open>actions\<close> or \<^verbatim>\<open>events\<close> parameter: its \<^verbatim>\<open>id\<close> (the JSON
  value naming an event, or an action's primary key) and its optional \<^verbatim>\<open>math\<close> field. The
  empty dictionary that \<^verbatim>\<open>trends\<close> passes for a default action has the id \<open>()\<close>.
\<close>

record 'i filters =
  f_id :: 'i
  f_math :: "string option"

text \<open>
  The query parameters of a request (\<^verbatim>\<open>request.GET\<close>); \<open>None\<close> is an absent key. The JSON
  parameters are held decoded (\<^verbatim>\<open>json.loads\<close> succeeded): \<open>GET_actions\<close> and
  \<open>GET_events\<close> are \<open>None\<close> for an absent or empty parameter, as \<^verbatim>\<open>_parse_entities\<close>
  returns. \<open>GET_properties\<close> is \<open>None\<close> for an absent or empty \<^verbatim>\<open>properties\<close> parameter and
  otherwise the predicate that \<^verbatim>\<open>properties_to_Q\<close> (in \<^verbatim>\<open>posthog.utils\<close>) builds from it.
\<close>

record request =
  GET_date_from :: "string option"
  GET_date_to :: "string option"
  GET_properties :: "(event \<Rightarrow> bool) option"
  GET_breakdown :: "string option"
  GET_shown_as :: "string option"
  GET_stickiness_days :: "string option"
  GET_entityId :: "string option"
  GET_type :: "string option"
  GET_actions :: "nat filters list option"
  GET_events :: "pyval filters list option"

text \<open>
  What the code reads from outside this file: the clock, the date parser of
  \<^verbatim>\<open>posthog.utils\<close>, Python's \<^verbatim>\<open>int\<close> on a string (\<open>None\<close> for a \<^verbatim>\<open>ValueError\<close>),
  \<^verbatim>\<open>strftime\<close>, the team of the requesting user, the two manager methods of the Event Store
  (the second for that team), and the tables of actions and of people. The order of a list of
  rows is the order in which the store returns them when the query asks for none; the
  \<^verbatim>\<open>order_by\<close> argument of the manager methods is left out, since every query below either
  replaces the order or asks for none.
\<close>

record world =
  today :: date
  relative_date_parse :: "string \<Rightarrow> date"
  py_int :: "string \<Rightarrow> int option"
  strftime :: "string \<Rightarrow> date \<Rightarrow> string"
  team :: nat
  filter_by_action :: "action \<Rightarrow> event list"
  filter_by_event_with_people :: "pyval \<Rightarrow> event list"
  Action_objects :: "action list"
  Person_objects :: "person list"

section \<open>Date range and event filter\<close>

text \<open>\<^verbatim>\<open>request.GET.get(k)\<close> used as a condition: the key is present and not empty.\<close>

definition present :: "string option \<Rightarrow> bool" where
  "present p = (case p of None \<Rightarrow> False | Some s \<Rightarrow> s \<noteq> [])"

definition get_dates_from_request :: "world \<Rightarrow> request \<Rightarrow> date option \<times> date" where
  "get_dates_from_request w req =
     (let date_from =
            (if present (GET_date_from req)
             then (if GET_date_from req = Some ''all'' then None
                   else Some (relative_date_parse w (the (GET_date_from req))))
             else Some (today w - 7));
          date_to =
            (if present (GET_date_to req)
             then relative_date_parse w (the (GET_date_to req))
             else today w)
      in (date_from, date_to))"

text \<open>
  \<^verbatim>\<open>_filter_events\<close>: the \<^verbatim>\<open>Q\<close> object as a predicate on events. A date is always true as
  a condition, so the upper bound is always there.
\<close>

definition filter_events :: "world \<Rightarrow> request \<Rightarrow> event \<Rightarrow> bool" where
  "filter_events w req e =
     (case get_dates_from_request w req of (date_from, date_to) \<Rightarrow>
        (case date_from of None \<Rightarrow> True | Some d \<Rightarrow> midnight d \<le> timestamp e) \<and>
        timestamp e \<le> midnight (date_to + 1) \<and>
        (case GET_properties req of None \<Rightarrow> True | Some q \<Rightarrow> q e))"

section \<open>Grouped queries\<close>

text \<open>The distinct values of a list, each at its first occurrence.\<close>

definition distinct_values :: "'a list \<Rightarrow> 'a list" where
  "distinct_values xs = rev (remdups (rev xs))"

text \<open>\<^verbatim>\<open>Count('id')\<close> and \<^verbatim>\<open>Count(f, distinct=True)\<close> over the events of one group.\<close>

definition Count_id :: "event list \<Rightarrow> nat" where
  "Count_id es = length es"

definition Count_distinct :: "(event \<Rightarrow> 'a) \<Rightarrow> event list \<Rightarrow> nat" where
  "Count_distinct f es = length (remdups (map f es))"

text \<open>
  A queryset \<^verbatim>\<open>.values(key).annotate(count=...)\<close>, not yet evaluated: the events it groups,
  the key, the annotation \<^verbatim>\<open>count\<close> (a later \<^verbatim>\<open>annotate(count=...)\<close> replaces it), and
  whether it is ordered by \<^verbatim>\<open>'-count'\<close>.
\<close>

record 'k query =
  q_source :: "event list"
  q_values :: "event \<Rightarrow> 'k"
  q_count :: "event list \<Rightarrow> nat"
  q_order_by_count :: bool

text \<open>
  Evaluating it: one row \<open>(key, count)\<close> for each group, in the order of the store, or sorted
  by descending count with ties in the order of the store.
\<close>

definition rows :: "'k query \<Rightarrow> ('k \<times> nat) list" where
  "rows q =
     (let groups = map (\<lambda>k. (k, q_count q (filter (\<lambda>e. q_values q e = k) (q_source q))))
                     (distinct_values (map (q_values q) (q_source q)))
      in if q_order_by_count q then sort_key (\<lambda>r. - int (snd r)) groups else groups)"

definition process_math :: "'k query \<Rightarrow> 'i filters \<Rightarrow> 'k query" where
  "process_math query flt =
     (if f_math flt = Some ''dau''
      then query\<lparr>q_count := Count_distinct distinct_id\<rparr>
      else query)"

section \<open>Stickiness\<close>

text \<open>Python's \<^verbatim>\<open>str\<close> of a natural number, and of an integer.\<close>

fun str_nat :: "nat \<Rightarrow> string" where
  "str_nat n =
     (if n < 10 then [''0123456789'' ! n]
      else str_nat (n div 10) @ [''0123456789'' ! (n mod 10)])"

definition str_int :: "int \<Rightarrow> string" where
  "str_int i = (if i < 0 then CHR ''-'' # str_nat (nat (- i)) else str_nat (nat i))"

record stickiness_dict =
  st_labels :: "string list"
  st_days :: "int list"
  st_data :: "int list"

text \<open>
  The annotated queryset of \<^verbatim>\<open>_stickiness\<close> before its filter: one row
  \<open>(person_id, day_count)\<close> for each person of the events.
\<close>

definition person_day_counts :: "event list \<Rightarrow> (nat \<times> int) list" where
  "person_day_counts es =
     map (\<lambda>p. (p, int (Count_distinct (\<lambda>e. TruncDay (timestamp e))
                        (filter (\<lambda>e. person_id e = p) es))))
       (distinct_values (map person_id es))"

text \<open>
  The custom SQL:
  \<^verbatim>\<open>select count(v.person_id), v.day_count from (...) as v group by v.day_count\<close>.
\<close>

definition aggregated_counts :: "(nat \<times> int) list \<Rightarrow> (int \<times> int) list" where
  "aggregated_counts v =
     map (\<lambda>k. (int (length (filter (\<lambda>r. snd r = k) v)), k)) (distinct_values (map snd v))"

text \<open>The two loops of \<^verbatim>\<open>_stickiness\<close>: filling the dictionary, and building the lists.\<close>

fun fill_response :: "(int \<times> int) list \<Rightarrow> (int \<rightharpoonup> int) \<Rightarrow> (int \<rightharpoonup> int)" where
  "fill_response [] response = response"
| "fill_response (result # rest) response = fill_response rest (response(snd result \<mapsto> fst result))"

fun build_series :: "(int \<rightharpoonup> int) \<Rightarrow> int list \<Rightarrow> string list \<times> int list \<Rightarrow> string list \<times> int list" where
  "build_series response [] (labels, data) = (labels, data)"
| "build_series response (day # rest) (labels, data) =
     build_series response rest
       (labels @ [str_int day @ '' day'' @ (if day > 1 then ''s'' else '''')],
        data @ [case response day of Some c \<Rightarrow> c | None \<Rightarrow> 0])"

text \<open>\<^verbatim>\<open>range(1, n)\<close>.\<close>

definition range1 :: "int \<Rightarrow> int list" where
  "range1 n = [1..n - 1]"

definition stickiness :: "world \<Rightarrow> event list \<Rightarrow> 'i filters \<Rightarrow> request \<Rightarrow> error + stickiness_dict" where
  "stickiness w filtered_events flt req =
     (case get_dates_from_request w req of
        (None, date_to) \<Rightarrow> Inl TypeError
      | (Some date_from, date_to) \<Rightarrow>
          (let range_days = (date_to - date_from) + 2;
               events = filter (\<lambda>r. snd r \<le> range_days)
                          (person_day_counts (filter (filter_events w req) filtered_events));
               response = fill_response (aggregated_counts events) Map.empty;
               (labels, data) = build_series response (range1 range_days) ([], [])
           in Inr \<lparr>st_labels = labels, st_days = range1 range_days, st_data = data\<rparr>))"

section \<open>Daily series and breakdown\<close>

record breakdown_item =
  bd_name :: pyval
  bd_count :: nat

text \<open>
  The dictionary \<^verbatim>\<open>append\<close>: \<open>None\<close> is a missing key. Numbers are held by their value
  (\<^verbatim>\<open>data\<close> and the \<^verbatim>\<open>count\<close> of \<^verbatim>\<open>_append_data\<close> are floats of whole value).
\<close>

record append_dict =
  ap_labels :: "string list option"
  ap_days :: "string list option"
  ap_data :: "rat list option"
  ap_count :: "rat option"
  ap_breakdown :: "breakdown_item list option"

definition empty_append :: append_dict where
  "empty_append = \<lparr>ap_labels = None, ap_days = None, ap_data = None, ap_count = None,
     ap_breakdown = None\<rparr>"

definition mean :: "rat list \<Rightarrow> rat" where
  "mean xs = sum_list xs / of_nat (length xs)"

text \<open>\<^verbatim>\<open>pd.date_range(date_from, date_to, freq='D')\<close>: empty when \<open>date_to < date_from\<close>.\<close>

definition date_range :: "date \<Rightarrow> date \<Rightarrow> date list" where
  "date_range date_from date_to = [date_from..date_to]"

text \<open>
  \<^verbatim>\<open>_group_events_to_date\<close>: the frame of \<open>(date, count)\<close> rows, grouped by date with the mean
  of the counts, laid over the index of all dates, gaps filled with 0. A frame built from no
  rows has no column \<^verbatim>\<open>date\<close>.
\<close>

definition group_events_to_date ::
    "date \<Rightarrow> date \<Rightarrow> (datetime \<times> nat) list \<Rightarrow> error + (date \<times> rat) list" where
  "group_events_to_date date_from date_to aggregates =
     (if aggregates = [] then Inl (KeyError ''date'')
      else
        (let frame = map (\<lambda>a. (date_of (fst a), (of_nat (snd a) :: rat))) aggregates;
             time_index = date_range date_from date_to
         in Inr (map (\<lambda>d. (d, case map snd (filter (\<lambda>r. fst r = d) frame) of
                                   [] \<Rightarrow> 0
                                 | c # cs \<Rightarrow> mean (c # cs)))
                   time_index)))"

definition append_data :: "world \<Rightarrow> append_dict \<Rightarrow> (date \<times> rat) list \<Rightarrow> append_dict" where
  "append_data w append' dates_filled =
     (let values = map snd dates_filled
      in append'\<lparr>ap_labels := Some (map (\<lambda>r. strftime w ''%a. %-d %B'' (fst r)) dates_filled),
                ap_days := Some (map (\<lambda>r. strftime w ''%Y-%m-%d'' (fst r)) dates_filled),
                ap_data := Some values,
                ap_count := Some (sum_list values)\<rparr>)"

text \<open>\<^verbatim>\<open>item[key] if item[key] else 'undefined'\<close>; a missing property reads as \<^verbatim>\<open>None\<close>.\<close>

definition breakdown_name :: "pyval option \<Rightarrow> pyval" where
  "breakdown_name v =
     (case v of
        None \<Rightarrow> StrV ''undefined''
      | Some x \<Rightarrow> if truthy x then x else StrV ''undefined'')"

text \<open>The grouped query of \<^verbatim>\<open>_breakdown\<close>, after \<^verbatim>\<open>_process_math\<close>.\<close>

definition breakdown_rows ::
    "world \<Rightarrow> event list \<Rightarrow> 'i filters \<Rightarrow> request \<Rightarrow> string \<Rightarrow> (pyval option \<times> nat) list" where
  "breakdown_rows w filtered_events flt req breakdown_by =
     rows (process_math
       \<lparr>q_source = filter (filter_events w req) filtered_events,
        q_values = (\<lambda>e. map_of (properties e) breakdown_by),
        q_count = Count_id,
        q_order_by_count = True\<rparr> flt)"

definition breakdown ::
    "world \<Rightarrow> append_dict \<Rightarrow> event list \<Rightarrow> 'i filters \<Rightarrow> request \<Rightarrow> string \<Rightarrow> append_dict" where
  "breakdown w append' filtered_events flt req breakdown_by =
     (let events = breakdown_rows w filtered_events flt req breakdown_by;
          values = map (\<lambda>item. \<lparr>bd_name = breakdown_name (fst item), bd_count = snd item\<rparr>)
                     events
      in append'\<lparr>ap_breakdown := Some values,
                ap_count := Some (of_nat (sum_list (map bd_count values)))\<rparr>)"

text \<open>
  The start of the series in \<^verbatim>\<open>_aggregate_by_day\<close>: the resolved \<^verbatim>\<open>date_from\<close>, or the
  day of \<^verbatim>\<open>aggregates[0]\<close> when there is none.
\<close>

definition effective_date_from :: "date option \<Rightarrow> datetime \<times> nat \<Rightarrow> date" where
  "effective_date_from date_from first =
     (case date_from of None \<Rightarrow> date_of (fst first) | Some d \<Rightarrow> d)"

text \<open>The grouped query of \<^verbatim>\<open>_aggregate_by_day\<close>, after \<^verbatim>\<open>_process_math\<close>.\<close>

definition day_aggregates :: "world \<Rightarrow> event list \<Rightarrow> 'i filters \<Rightarrow> request \<Rightarrow> (datetime \<times> nat) list" where
  "day_aggregates w filtered_events flt req =
     rows (process_math
       \<lparr>q_source = filter (filter_events w req) filtered_events,
        q_values = (\<lambda>e. TruncDay (timestamp e)),
        q_count = Count_id,
        q_order_by_count = False\<rparr> flt)"

definition aggregate_by_day ::
    "world \<Rightarrow> event list \<Rightarrow> 'i filters \<Rightarrow> request \<Rightarrow> error + append_dict" where
  "aggregate_by_day w filtered_events flt req =
     (let aggregates = day_aggregates w filtered_events flt req;
          series =
            (case aggregates of
               [] \<Rightarrow> Inr empty_append
             | first # _ \<Rightarrow>
                 (case get_dates_from_request w req of (date_from, date_to) \<Rightarrow>
                    (case group_events_to_date (effective_date_from date_from first) date_to aggregates of
                       Inl e \<Rightarrow> Inl e
                     | Inr dates_filled \<Rightarrow> Inr (append_data w empty_append dates_filled))))
      in case series of
           Inl e \<Rightarrow> Inl e
         | Inr append' \<Rightarrow>
             Inr (if present (GET_breakdown req)
                  then breakdown w append' filtered_events flt req (the (GET_breakdown req))
                  else append'))"

section \<open>Entities, trends and people\<close>

text \<open>An entity together with its \<^verbatim>\<open>entity_type\<close>.\<close>

datatype entity = ActionEntity action | EventEntity "pyval filters"

definition process_entity_for_events :: "world \<Rightarrow> entity \<Rightarrow> event list" where
  "process_entity_for_events w ent =
     (case ent of
        ActionEntity a \<Rightarrow> filter_by_action w a
      | EventEntity e \<Rightarrow> filter_by_event_with_people w (f_id e))"

definition entity_type :: "entity \<Rightarrow> string" where
  "entity_type ent = (case ent of ActionEntity a \<Rightarrow> ''actions'' | EventEntity e \<Rightarrow> ''events'')"

record serialized =
  se_id :: pyval
  se_name :: pyval
  se_type :: string
  se_label :: pyval
  se_count :: rat
  se_breakdown :: "breakdown_item list"
  se_labels :: "string list option"
  se_days :: "pyval list option"
  se_data :: "rat list option"

text \<open>\<^verbatim>\<open>serialized.update(d)\<close> for the two kinds of dictionary.\<close>

definition override :: "'a \<Rightarrow> 'a option \<Rightarrow> 'a" where
  "override old new = (case new of None \<Rightarrow> old | Some v \<Rightarrow> v)"

definition update_append :: "serialized \<Rightarrow> append_dict \<Rightarrow> serialized" where
  "update_append s a =
     s\<lparr>se_count := override (se_count s) (ap_count a),
       se_breakdown := override (se_breakdown s) (ap_breakdown a),
       se_labels := (case ap_labels a of None \<Rightarrow> se_labels s | Some l \<Rightarrow> Some l),
       se_days := (case ap_days a of None \<Rightarrow> se_days s | Some d \<Rightarrow> Some (map StrV d)),
       se_data := (case ap_data a of None \<Rightarrow> se_data s | Some d \<Rightarrow> Some d)\<rparr>"

definition update_stickiness :: "serialized \<Rightarrow> stickiness_dict \<Rightarrow> serialized" where
  "update_stickiness s d =
     s\<lparr>se_labels := Some (st_labels d),
       se_days := Some (map (\<lambda>k. NumV (of_int k)) (st_days d)),
       se_data := Some (map of_int (st_data d))\<rparr>"

definition serialize_entity ::
    "world \<Rightarrow> pyval \<Rightarrow> pyval \<Rightarrow> entity \<Rightarrow> 'i filters \<Rightarrow> request \<Rightarrow> error + serialized" where
  "serialize_entity w ident name ent flt req =
     (let serialized = \<lparr>se_id = ident, se_name = name, se_type = entity_type ent,
                         se_label = name, se_count = 0, se_breakdown = [],
                         se_labels = None, se_days = None, se_data = None\<rparr>
      in if (case GET_shown_as req of None \<Rightarrow> ''Volume'' | Some s \<Rightarrow> s) = ''Volume''
         then (case aggregate_by_day w (process_entity_for_events w ent) flt req of
                 Inl e \<Rightarrow> Inl e
               | Inr a \<Rightarrow> Inr (update_append serialized a))
         else if GET_shown_as req = Some ''Stickiness''
         then (case stickiness w (process_entity_for_events w ent) flt req of
                 Inl e \<Rightarrow> Inl e
               | Inr d \<Rightarrow> Inr (update_stickiness serialized d))
         else Inr serialized)"

text \<open>
  \<^verbatim>\<open>get_queryset\<close> for an action of the view other than \<^verbatim>\<open>list\<close>; the annotation of
  \<^verbatim>\<open>include_count\<close> is not read by \<^verbatim>\<open>trends\<close> and is left out.
\<close>

definition get_queryset :: "world \<Rightarrow> request \<Rightarrow> action list" where
  "get_queryset w req =
     (let queryset = Action_objects w;
          queryset = (case GET_actions req of
                        None \<Rightarrow> queryset
                      | Some parsed \<Rightarrow> filter (\<lambda>a. a_id a \<in> set (map f_id parsed)) queryset)
      in sort_key (\<lambda>a. - int (a_id a)) (filter (\<lambda>a. a_team a = team w) queryset))"

text \<open>The three loops of \<^verbatim>\<open>trends\<close>, each appending to \<^verbatim>\<open>actions_list\<close>.\<close>

fun trends_events ::
    "world \<Rightarrow> request \<Rightarrow> pyval filters list \<Rightarrow> serialized list \<Rightarrow> error + serialized list" where
  "trends_events w req [] actions_list = Inr actions_list"
| "trends_events w req (event # rest) actions_list =
     (case serialize_entity w (f_id event) (f_id event) (EventEntity event) event req of
        Inl e \<Rightarrow> Inl e
      | Inr trend_entity \<Rightarrow>
          trends_events w req rest
            (if se_labels trend_entity \<noteq> None then actions_list @ [trend_entity]
             else actions_list))"

fun trends_actions ::
    "world \<Rightarrow> request \<Rightarrow> action list \<Rightarrow> nat filters list \<Rightarrow> serialized list \<Rightarrow> error + serialized list" where
  "trends_actions w req actions [] actions_list = Inr actions_list"
| "trends_actions w req actions (flt # rest) actions_list =
     (case find (\<lambda>a. a_id a = f_id flt) actions of
        None \<Rightarrow> trends_actions w req actions rest actions_list
      | Some db_action \<Rightarrow>
          (case serialize_entity w (NumV (of_nat (a_id db_action))) (StrV (a_name db_action))
                  (ActionEntity db_action) flt req of
             Inl e \<Rightarrow> Inl e
           | Inr trend_entity \<Rightarrow>
               trends_actions w req actions rest (actions_list @ [trend_entity])))"

fun trends_default ::
    "world \<Rightarrow> request \<Rightarrow> action list \<Rightarrow> serialized list \<Rightarrow> error + serialized list" where
  "trends_default w req [] actions_list = Inr actions_list"
| "trends_default w req (action # rest) actions_list =
     (case serialize_entity w (NumV (of_nat (a_id action))) (StrV (a_name action))
             (ActionEntity action) \<lparr>f_id = (), f_math = None\<rparr> req of
        Inl e \<Rightarrow> Inl e
      | Inr trend_entity \<Rightarrow> trends_default w req rest (actions_list @ [trend_entity]))"

text \<open>A list as a condition: it is there and not empty.\<close>

definition nonempty :: "'a list option \<Rightarrow> bool" where
  "nonempty p = (case p of None \<Rightarrow> False | Some xs \<Rightarrow> xs \<noteq> [])"

definition trends :: "world \<Rightarrow> request \<Rightarrow> error + serialized list" where
  "trends w req =
     (let actions = filter (\<lambda>a. \<not> deleted a) (get_queryset w req);
          parsed_actions = GET_actions req;
          parsed_events = GET_events req
      in case (if nonempty parsed_events then trends_events w req (the parsed_events) []
               else Inr []) of
           Inl e \<Rightarrow> Inl e
         | Inr actions_list \<Rightarrow>
             if nonempty parsed_actions
             then trends_actions w req actions (the parsed_actions) actions_list
             else if parsed_events = None
             then trends_default w req actions actions_list
             else Inr actions_list)"

record people_dict =
  pe_id :: pyval
  pe_name :: pyval
  pe_people :: "person list"
  pe_count :: nat

text \<open>
  \<^verbatim>\<open>_serialize_people\<close>; the serializer of a person (in \<^verbatim>\<open>posthog/api/person.py\<close>) is taken
  as the identity.
\<close>

definition serialize_people :: "pyval \<Rightarrow> pyval \<Rightarrow> person list \<Rightarrow> request \<Rightarrow> people_dict" where
  "serialize_people ident name people req =
     (let people_dict = people
      in \<lparr>pe_id = ident, pe_name = name, pe_people = people_dict, pe_count = length people_dict\<rparr>)"

text \<open>
  The rows of \<^verbatim>\<open>events\<close> in \<^verbatim>\<open>_calculate_people\<close> after the branch on \<^verbatim>\<open>shown_as\<close>, as the
  values of \<^verbatim>\<open>person_id\<close> they carry. In the branch that leaves \<^verbatim>\<open>events\<close> a queryset of
  model instances, subscripting the first of them raises.
\<close>

definition people_rows :: "world \<Rightarrow> request \<Rightarrow> event list \<Rightarrow> error + nat list" where
  "people_rows w req events =
     (if (case GET_shown_as req of None \<Rightarrow> ''Volume'' | Some s \<Rightarrow> s) = ''Volume''
      then Inr (distinct_values (map person_id events))
      else if GET_shown_as req = Some ''Stickiness''
      then (case GET_stickiness_days req of
              None \<Rightarrow> Inl (KeyError ''stickiness_days'')
            | Some s \<Rightarrow>
                (case py_int w s of
                   None \<Rightarrow> Inl ValueError
                 | Some stickiness_days \<Rightarrow>
                     Inr (map fst (filter (\<lambda>r. snd r = stickiness_days)
                                     (person_day_counts events)))))
      else if events = [] then Inr [] else Inl TypeError)"

definition calculate_people ::
    "world \<Rightarrow> request \<Rightarrow> pyval \<Rightarrow> pyval \<Rightarrow> event list \<Rightarrow> error + people_dict" where
  "calculate_people w req ident name events =
     (case people_rows w req events of
        Inl e \<Rightarrow> Inl e
      | Inr rows' \<Rightarrow>
          (let people = filter (\<lambda>p. p_team p = team w \<and> p_id p \<in> set (take 100 rows'))
                          (Person_objects w)
           in Inr (serialize_people ident name people req)))"

definition people :: "world \<Rightarrow> request \<Rightarrow> error + people_dict list" where
  "people w req =
     (let entityId = GET_entityId req;
          entityType = GET_type req
      in if entityType = Some ''events''
         then (let ident = (case entityId of None \<Rightarrow> NoneV | Some s \<Rightarrow> StrV s);
                   filtered_events = filter (filter_events w req)
                       (process_entity_for_events w (EventEntity \<lparr>f_id = ident, f_math = None\<rparr>))
               in case calculate_people w req ident ident filtered_events of
                    Inl e \<Rightarrow> Inl e
                  | Inr p \<Rightarrow> Inr [p])
         else if entityType = Some ''actions''
         then (case entityId of
                 None \<Rightarrow> Inr []
               | Some s \<Rightarrow>
                   (case py_int w s of
                      None \<Rightarrow> Inl ValueError
                    | Some pk \<Rightarrow>
                        (case find (\<lambda>a. int (a_id a) = pk)
                                (filter (\<lambda>a. \<not> deleted a) (Action_objects w)) of
                           None \<Rightarrow> Inr []
                         | Some action \<Rightarrow>
                             (let filtered_events = filter (filter_events w req)
                                      (process_entity_for_events w (ActionEntity action))
                              in case calculate_people w req (NumV (of_nat (a_id action)))
                                        (StrV (a_name action)) filtered_events of
                                   Inl e \<Rightarrow> Inl e
                                 | Inr p \<Rightarrow> Inr [p]))))
         else Inr [])"

section \<open>Notions of the specification\<close>

text \<open>
  The actors of a set of events, the distinct calendar days on which an actor has an event,
  and the actors with exactly \<open>k\<close> such days. They are stated on the events themselves and
  do not follow the queries of the code.
\<close>

definition actors :: "event list \<Rightarrow> nat list" where
  "actors es = remdups (map person_id es)"

definition active_days :: "event list \<Rightarrow> nat \<Rightarrow> date list" where
  "active_days es p =
     remdups (map (\<lambda>e. date_of (timestamp e)) (filter (\<lambda>e. person_id e = p) es))"

definition actors_active :: "event list \<Rightarrow> int \<Rightarrow> nat list" where
  "actors_active es k = filter (\<lambda>p. int (length (active_days es p)) = k) (actors es)"

definition day_label :: "int \<Rightarrow> string" where
  "day_label day = str_int day @ '' day'' @ (if day > 1 then ''s'' else [])"

text \<open>
  The count of a group of events in a math mode: its distinct values of \<open>distinct_id\<close>
  for \<^verbatim>\<open>dau\<close>, its events for any other value and for none.
\<close>

definition count_in_mode :: "string option \<Rightarrow> event list \<Rightarrow> nat" where
  "count_in_mode math es =
     (if math = Some ''dau'' then card (distinct_id ` set es) else length es)"

definition events_on :: "event list \<Rightarrow> date \<Rightarrow> event list" where
  "events_on es d = filter (\<lambda>e. date_of (timestamp e) = d) es"

definition events_with :: "event list \<Rightarrow> string \<Rightarrow> pyval option \<Rightarrow> event list" where
  "events_with es key v = filter (\<lambda>e. map_of (properties e) key = v) es"

section \<open>Example data\<close>

text \<open>
  A world for the examples: dates of January 2020 (1 January 2020 has the ordinal 737425 and
  is a Wednesday), written and parsed as \<^verbatim>\<open>strftime\<close> and the date parser do for these dates.
\<close>

definition jan2020 :: "int \<Rightarrow> date" where
  "jan2020 d = 737424 + d"

definition example_parse :: "string \<Rightarrow> date" where
  "example_parse s =
     (case map_of [(''2020-01-01'', jan2020 1), (''2020-01-02'', jan2020 2),
                   (''2020-01-03'', jan2020 3), (''2020-01-04'', jan2020 4),
                   (''2020-01-05'', jan2020 5)] s of
        Some d \<Rightarrow> d
      | None \<Rightarrow> jan2020 10)"

definition example_int :: "string \<Rightarrow> int option" where
  "example_int s = map_of [(''0'', 0), (''1'', 1), (''2'', 2), (''3'', 3), (''7'', 7)] s"

definition example_strftime :: "string \<Rightarrow> date \<Rightarrow> string" where
  "example_strftime fmt d =
     (let day = d - 737424 in
      if fmt = ''%Y-%m-%d''
      then ''2020-01-'' @ (if day < 10 then ''0'' else []) @ str_int day
      else [''Mon'', ''Tue'', ''Wed'', ''Thu'', ''Fri'', ''Sat'', ''Sun''] ! nat ((d + 6) mod 7)
             @ ''. '' @ str_int day @ '' January'')"

text \<open>
  The Event Store of the examples holds the events \<open>es\<close> for the event named
  \<^verbatim>\<open>$pageview\<close> and for the action with id 1, and none for any other entity.
\<close>

definition example_world :: "event list \<Rightarrow> world" where
  "example_world es =
     \<lparr>today = jan2020 10,
      relative_date_parse = example_parse,
      py_int = example_int,
      strftime = example_strftime,
      team = 1,
      filter_by_action = (\<lambda>a. if a_id a = 1 then es else []),
      filter_by_event_with_people = (\<lambda>v. if v = StrV ''$pageview'' then es else []),
      Action_objects =
        [\<lparr>a_id = 1, a_team = 1, a_name = ''Signed up'', deleted = False\<rparr>,
         \<lparr>a_id = 2, a_team = 1, a_name = ''Paid'', deleted = False\<rparr>,
         \<lparr>a_id = 3, a_team = 1, a_name = ''Old'', deleted = True\<rparr>],
      Person_objects = map (\<lambda>i. \<lparr>p_id = i, p_team = 1, p_properties = []\<rparr>) [0..<200]\<rparr>"

definition example_request :: request where
  "example_request =
     \<lparr>GET_date_from = None, GET_date_to = None, GET_properties = None, GET_breakdown = None,
      GET_shown_as = None, GET_stickiness_days = None, GET_entityId = None, GET_type = None,
      GET_actions = None, GET_events = None\<rparr>"

text \<open>An event of person \<open>p\<close>, \<open>us\<close> microseconds into the day \<open>d\<close>.\<close>

definition example_event :: "nat \<Rightarrow> date \<Rightarrow> int \<Rightarrow> (string \<times> pyval) list \<Rightarrow> event" where
  "example_event p d us props =
     \<lparr>ev_id = 0, distinct_id = ''user-'' @ str_nat p, person_id = p,
      timestamp = midnight d + us, properties = props\<rparr>"

definition no_filters :: "unit filters" where
  "no_filters = \<lparr>f_id = (), f_math = None\<rparr>"

text \<open>
  Scenario 2 of the specification: a stickiness query from 2020-01-01 to 2020-01-02, actor 1
  active on both days, actor 2 on one.
\<close>

definition scenario_2_events :: "event list" where
  "scenario_2_events =
     [example_event 1 (jan2020 1) 3600000000 [],
      example_event 1 (jan2020 2) 3600000000 [],
      example_event 2 (jan2020 1) 7200000000 []]"

definition scenario_2_request :: request where
  "scenario_2_request =
     example_request\<lparr>GET_date_from := Some ''2020-01-01'', GET_date_to := Some ''2020-01-02'',
       GET_shown_as := Some ''Stickiness''\<rparr>"

text \<open>
  A stickiness query for the single day 2020-01-01; actor 7 has an event at noon of that day
  and one at 00:00:00 of the next day, the instant up to which \<^verbatim>\<open>_filter_events\<close> lets
  events through.
\<close>

definition closing_midnight_events :: "event list" where
  "closing_midnight_events =
     [example_event 7 (jan2020 1) 43200000000 [],
      example_event 7 (jan2020 2) 0 []]"

definition closing_midnight_request :: request where
  "closing_midnight_request =
     example_request\<lparr>GET_date_from := Some ''2020-01-01'', GET_date_to := Some ''2020-01-01'',
       GET_shown_as := Some ''Stickiness''\<rparr>"

text \<open>
  Scenario 1 of the specification: a volume query from 2020-01-01 to 2020-01-03 with two
  events on the first day, none on the second and one on the third.
\<close>

definition scenario_1_events :: "event list" where
  "scenario_1_events =
     [example_event 1 (jan2020 1) 3600000000 [],
      example_event 2 (jan2020 1) 7200000000 [],
      example_event 1 (jan2020 3) 3600000000 []]"

definition scenario_1_request :: request where
  "scenario_1_request =
     example_request\<lparr>GET_date_from := Some ''2020-01-01'', GET_date_to := Some ''2020-01-03''\<rparr>"

text \<open>
  A volume query with \<open>date_from = all\<close> up to 2020-01-05, over events of 3 January and
  5 January that the store returns with the later day first.
\<close>

definition later_day_first_events :: "event list" where
  "later_day_first_events =
     [example_event 1 (jan2020 5) 3600000000 [],
      example_event 2 (jan2020 3) 3600000000 [],
      example_event 3 (jan2020 3) 7200000000 []]"

definition all_dates_request :: request where
  "all_dates_request =
     example_request\<lparr>GET_date_from := Some ''all'', GET_date_to := Some ''2020-01-05''\<rparr>"

text \<open>
  Scenario 3 of the specification: a breakdown by \<^verbatim>\<open>$browser\<close> over three events of Chrome,
  one of Safari and two without the property.
\<close>

definition scenario_3_events :: "event list" where
  "scenario_3_events =
     [example_event 1 (jan2020 1) 1000000 [(''$browser'', StrV ''Chrome'')],
      example_event 2 (jan2020 1) 2000000 [(''$browser'', StrV ''Safari'')],
      example_event 3 (jan2020 1) 3000000 [],
      example_event 1 (jan2020 2) 4000000 [(''$browser'', StrV ''Chrome'')],
      example_event 4 (jan2020 2) 5000000 [(''$lib'', StrV ''web'')],
      example_event 5 (jan2020 3) 6000000 [(''$browser'', StrV ''Chrome'')]]"

definition scenario_3_request :: request where
  "scenario_3_request =
     example_request\<lparr>GET_date_from := Some ''2020-01-01'', GET_date_to := Some ''2020-01-03'',
       GET_breakdown := Some ''$browser''\<rparr>"

definition dau_filters :: "unit filters" where
  "dau_filters = \<lparr>f_id = (), f_math = Some ''dau''\<rparr>"

section \<open>Notions of the specification for trends and people\<close>

text \<open>
  The entities a trends request asks for, in the order of the response the specification
  describes: the requested events in request order, then the requested actions in request
  order, those with an unknown id left out, or, when the request names neither actions nor
  events, the actions of the team that are not deleted, by descending id.
\<close>

definition requested_events :: "request \<Rightarrow> pyval filters list" where
  "requested_events req = (case GET_events req of None \<Rightarrow> [] | Some evs \<Rightarrow> evs)"

definition known_actions :: "world \<Rightarrow> request \<Rightarrow> action list" where
  "known_actions w req = filter (\<lambda>a. \<not> deleted a) (get_queryset w req)"

definition requested_actions :: "world \<Rightarrow> request \<Rightarrow> (nat filters \<times> action) list" where
  "requested_actions w req =
     concat (map (\<lambda>flt. case find (\<lambda>a. a_id a = f_id flt) (known_actions w req) of
                          None \<Rightarrow> []
                        | Some a \<Rightarrow> [(flt, a)])
               (case GET_actions req of None \<Rightarrow> [] | Some fs \<Rightarrow> fs))"

definition event_result :: "world \<Rightarrow> request \<Rightarrow> pyval filters \<Rightarrow> error + serialized" where
  "event_result w req ev = serialize_entity w (f_id ev) (f_id ev) (EventEntity ev) ev req"

definition action_result :: "world \<Rightarrow> request \<Rightarrow> 'i filters \<Rightarrow> action \<Rightarrow> error + serialized" where
  "action_result w req flt a =
     serialize_entity w (NumV (of_nat (a_id a))) (StrV (a_name a)) (ActionEntity a) flt req"

section \<open>Example requests for trends and people\<close>

text \<open>A trends request over two events and three action ids, of which 9 is unknown.\<close>

definition example_trends_request :: request where
  "example_trends_request =
     example_request\<lparr>GET_date_from := Some ''2020-01-01'', GET_date_to := Some ''2020-01-03'',
       GET_events := Some [\<lparr>f_id = StrV ''$signup'', f_math = None\<rparr>,
                           \<lparr>f_id = StrV ''$pageview'', f_math = None\<rparr>],
       GET_actions := Some [\<lparr>f_id = 2, f_math = None\<rparr>, \<lparr>f_id = 9, f_math = None\<rparr>,
                            \<lparr>f_id = 1, f_math = Some ''dau''\<rparr>]\<rparr>"

text \<open>
  Scenario 4 of the specification: a people query in Volume mode for an event with 150
  distinct matching actors, the persons 0 to 149.
\<close>

definition scenario_4_events :: "event list" where
  "scenario_4_events = map (\<lambda>p. example_event p (jan2020 1) 1000000 []) [0..<150]"

definition scenario_4_request :: request where
  "scenario_4_request =
     example_request\<lparr>GET_date_from := Some ''2020-01-01'', GET_date_to := Some ''2020-01-03'',
       GET_type := Some ''events'', GET_entityId := Some ''$pageview''\<rparr>"

text \<open>
  A people query shown as Stickiness over the events of Scenario 2, without the parameter
  \<^verbatim>\<open>stickiness_days\<close>, and with the value 2.
\<close>

definition stickiness_people_request :: request where
  "stickiness_people_request =
     example_request\<lparr>GET_date_from := Some ''2020-01-01'', GET_date_to := Some ''2020-01-02'',
       GET_shown_as := Some ''Stickiness'',
       GET_type := Some ''events'', GET_entityId := Some ''$pageview''\<rparr>"


section \<open>Properties of the stickiness histogram\<close>

lemma set_distinct_values: "set (distinct_values xs) = set xs"
  by (simp add: distinct_values_def)

lemma distinct_distinct_values: "distinct (distinct_values xs)"
  by (simp add: distinct_values_def)

lemma build_series_eq:
  "build_series response ks (ls, ds) =
     (ls @ map day_label ks,
      ds @ map (\<lambda>day. case response day of Some c \<Rightarrow> c | None \<Rightarrow> 0) ks)"
  by (induction ks arbitrary: ls ds) (simp_all add: day_label_def)

lemma fill_response_keys:
  "fill_response (map (\<lambda>k. (g k, k)) ks) m k = (if k \<in> set ks then Some (g k) else m k)"
  by (induction ks arbitrary: m) auto

lemma response_lookup:
  "(case fill_response (aggregated_counts v) Map.empty k of Some c \<Rightarrow> c | None \<Rightarrow> 0)
     = int (length (filter (\<lambda>r. snd r = k) v))"
proof -
  have "k \<notin> snd ` set v \<Longrightarrow> filter (\<lambda>r. snd r = k) v = []"
    by (auto simp: filter_empty_conv)
  then show ?thesis
    unfolding aggregated_counts_def
    by (simp add: fill_response_keys set_distinct_values)
qed

lemma Count_distinct_card: "Count_distinct f es = card (f ` set es)"
  by (simp add: Count_distinct_def length_remdups_card_conv)

lemma Count_distinct_TruncDay:
  "Count_distinct (\<lambda>e. TruncDay (timestamp e)) es = card ((\<lambda>e. date_of (timestamp e)) ` set es)"
proof -
  have "(\<lambda>e. TruncDay (timestamp e)) ` set es
          = midnight ` ((\<lambda>e. date_of (timestamp e)) ` set es)"
    by (auto simp: TruncDay_def)
  moreover have "inj midnight"
    by (auto simp: inj_on_def midnight_def day_us_def)
  ultimately show ?thesis
    by (simp add: Count_distinct_card card_image inj_on_subset)
qed

lemma day_count_active_days:
  "Count_distinct (\<lambda>e. TruncDay (timestamp e)) (filter (\<lambda>e. person_id e = p) es)
     = length (active_days es p)"
  by (simp add: Count_distinct_TruncDay active_days_def length_remdups_card_conv)

lemma person_day_counts_eq:
  "person_day_counts es =
     map (\<lambda>p. (p, int (length (active_days es p)))) (distinct_values (map person_id es))"
  by (simp add: person_day_counts_def day_count_active_days)

lemma length_filter_distinct_cong:
  assumes "distinct xs" "distinct ys" "set xs = set ys"
  shows "length (filter P xs) = length (filter P ys)"
  using assms by (simp add: distinct_length_filter)

lemma rows_with_day_count:
  "length (filter (\<lambda>r. snd r = k) (person_day_counts es)) = length (actors_active es k)"
proof -
  have "length (filter (\<lambda>r. snd r = k) (person_day_counts es))
      = length (filter (\<lambda>p. int (length (active_days es p)) = k)
                  (distinct_values (map person_id es)))"
    by (simp add: person_day_counts_eq filter_map comp_def)
  also have "\<dots> = length (actors_active es k)"
    unfolding actors_active_def actors_def
    by (rule length_filter_distinct_cong)
       (simp_all add: distinct_distinct_values set_distinct_values)
  finally show ?thesis .
qed

lemma kept_rows_with_day_count:
  fixes k n :: int
  assumes "k \<le> n"
  shows "filter (\<lambda>r. snd r \<le> n \<and> snd r = k) v = filter (\<lambda>r. snd r = k) v"
  using assms by (intro filter_cong) auto

lemma set_range1: "set (range1 n) = {k. 1 \<le> k \<and> k < n}"
  by (auto simp: range1_def)

lemma stickiness_series:
  assumes "get_dates_from_request w req = (Some date_from, date_to)"
  shows "\<exists>r. stickiness w filtered_events flt req = Inr r
           \<and> st_days r = [1 .. (date_to - date_from) + 2 - 1]
           \<and> st_labels r = map day_label (st_days r)
           \<and> st_data r = map (\<lambda>k. int (length (actors_active
                  (filter (filter_events w req) filtered_events) k))) (st_days r)"
proof -
  let ?n = "(date_to - date_from) + 2"
  let ?F = "filter (filter_events w req) filtered_events"
  have "map (\<lambda>day. case fill_response
                 (aggregated_counts (filter (\<lambda>r. snd r \<le> ?n) (person_day_counts ?F)))
                 Map.empty day of Some c \<Rightarrow> c | None \<Rightarrow> 0) (range1 ?n)
      = map (\<lambda>k. int (length (actors_active ?F k))) (range1 ?n)"
    by (rule map_cong[OF refl])
       (simp add: response_lookup set_range1 kept_rows_with_day_count rows_with_day_count)
  then show ?thesis
    using assms by (simp add: stickiness_def build_series_eq range1_def)
qed

lemma date_of_ge: "midnight d \<le> t \<Longrightarrow> d \<le> date_of t"
  unfolding midnight_def date_of_def day_us_def by linarith

lemma date_of_le: "t < midnight (d + 1) \<Longrightarrow> date_of t \<le> d"
  unfolding midnight_def date_of_def day_us_def by (simp add: distrib_right)

lemma length_filter_disjoint:
  assumes "\<And>x. x \<in> set xs \<Longrightarrow> \<not> (P x \<and> Q x)"
  shows "length (filter P xs) + length (filter Q xs) = length (filter (\<lambda>x. P x \<or> Q x) xs)"
  using assms by (induction xs) auto

lemma sum_length_filter_keys:
  assumes "distinct ks"
  shows "(\<Sum>k\<leftarrow>ks. int (length (filter (\<lambda>p. g p = k) ps)))
           = int (length (filter (\<lambda>p. g p \<in> set ks) ps))"
  using assms
proof (induction ks)
  case Nil
  then show ?case by simp
next
  case (Cons k ks)
  have "length (filter (\<lambda>p. g p = k) ps) + length (filter (\<lambda>p. g p \<in> set ks) ps)
          = length (filter (\<lambda>p. g p = k \<or> g p \<in> set ks) ps)"
    using Cons.prems by (intro length_filter_disjoint) auto
  then show ?case using Cons by simp
qed

lemma actor_has_active_day:
  assumes "p \<in> set (actors es)"
  shows "1 \<le> int (length (active_days es p))"
proof -
  from assms obtain e where "e \<in> set es" "person_id e = p"
    by (auto simp: actors_def)
  then have "date_of (timestamp e) \<in> set (active_days es p)"
    by (simp add: active_days_def)
  then have "active_days es p \<noteq> []" by auto
  then show ?thesis by (cases "active_days es p") simp_all
qed

text \<open>
  The sum of the histogram is the number of actors with fewer than \<open>range_days\<close> active
  days: an actor with exactly \<open>range_days\<close> of them passes the filter of the query and has no
  bucket.
\<close>

lemma stickiness_sum_data:
  assumes "get_dates_from_request w req = (Some date_from, date_to)"
  shows "\<exists>r. stickiness w filtered_events flt req = Inr r
           \<and> sum_list (st_data r) =
               int (length (filter
                 (\<lambda>p. int (length (active_days (filter (filter_events w req) filtered_events) p))
                        < (date_to - date_from) + 2)
                 (actors (filter (filter_events w req) filtered_events))))"
proof -
  let ?n = "(date_to - date_from) + 2"
  let ?F = "filter (filter_events w req) filtered_events"
  let ?dc = "\<lambda>p. int (length (active_days ?F p))"
  from stickiness_series[OF assms, of filtered_events flt]
  obtain r where r: "stickiness w filtered_events flt req = Inr r"
    "st_days r = [1 .. ?n - 1]"
    "st_data r = map (\<lambda>k. int (length (actors_active ?F k))) (st_days r)"
    by blast
  have "sum_list (st_data r)
          = (\<Sum>k\<leftarrow>[1 .. ?n - 1]. int (length (filter (\<lambda>p. ?dc p = k) (actors ?F))))"
    by (simp add: r actors_active_def)
  also have "\<dots> = int (length (filter (\<lambda>p. ?dc p \<in> set [1 .. ?n - 1]) (actors ?F)))"
    by (rule sum_length_filter_keys) simp
  also have "filter (\<lambda>p. ?dc p \<in> set [1 .. ?n - 1]) (actors ?F)
               = filter (\<lambda>p. ?dc p < ?n) (actors ?F)"
    by (rule filter_cong[OF refl]) (use actor_has_active_day[of _ ?F] in auto)
  finally show ?thesis using r(1) by blast
qed

lemma active_days_in_window:
  assumes "\<And>e. e \<in> set es \<Longrightarrow> a \<le> date_of (timestamp e) \<and> date_of (timestamp e) \<le> b"
  shows "int (length (active_days es p)) \<le> max 0 (b - a + 1)"
proof -
  have "set (active_days es p) \<subseteq> {a..b}"
    using assms by (auto simp: active_days_def)
  then have "card (set (active_days es p)) \<le> card {a..b}"
    by (intro card_mono) simp_all
  moreover have "distinct (active_days es p)"
    by (simp add: active_days_def)
  ultimately have "length (active_days es p) \<le> card {a..b}"
    by (simp add: distinct_card)
  then show ?thesis by simp
qed

text \<open>
  Conservation holds for every event set with no event on the closing instant of the filter,
  midnight at the start of the day after \<open>date_to\<close>.
\<close>

lemma stickiness_conservation:
  assumes dates: "get_dates_from_request w req = (Some date_from, date_to)"
    and closing: "\<And>e. e \<in> set filtered_events \<Longrightarrow> timestamp e \<noteq> midnight (date_to + 1)"
  shows "\<exists>r. stickiness w filtered_events flt req = Inr r
           \<and> sum_list (st_data r) =
               int (length (actors (filter (filter_events w req) filtered_events)))"
proof -
  let ?n = "(date_to - date_from) + 2"
  let ?F = "filter (filter_events w req) filtered_events"
  have window: "date_from \<le> date_of (timestamp e) \<and> date_of (timestamp e) \<le> date_to"
    if "e \<in> set ?F" for e
  proof -
    from that have "midnight date_from \<le> timestamp e" "timestamp e \<le> midnight (date_to + 1)"
      and "e \<in> set filtered_events"
      by (simp_all add: filter_events_def dates)
    with closing[of e] have "timestamp e < midnight (date_to + 1)" by simp
    with \<open>midnight date_from \<le> timestamp e\<close> show ?thesis
      by (simp add: date_of_ge date_of_le)
  qed
  have "int (length (active_days ?F p)) < ?n" if "p \<in> set (actors ?F)" for p
  proof -
    from that obtain e where "e \<in> set ?F" by (auto simp: actors_def)
    from window[OF this] have "date_from \<le> date_to" by simp
    moreover have "int (length (active_days ?F p)) \<le> max 0 (date_to - date_from + 1)"
      using window by (rule active_days_in_window)
    ultimately show ?thesis by simp
  qed
  then have "filter (\<lambda>p. int (length (active_days ?F p)) < ?n) (actors ?F) = actors ?F"
    by (simp add: filter_id_conv)
  with stickiness_sum_data[OF dates, of filtered_events flt] show ?thesis by simp
qed

section \<open>Claims on the stickiness aggregator\<close>

text \<open>
  C1. The specification states that the sum of the stickiness \<open>data\<close> list is the number of
  distinct actors with a matching event in the window, every actor kept by the filter
  \<open>day_count \<le> range_days\<close> being counted in one bucket. The query keeps the actors with up
  to \<open>range_days\<close> active days, the loop emits the buckets \<open>1\<close> to \<open>range_days - 1\<close>. For the
  single day 2020-01-01, \<open>range_days\<close> is 2; actor 7, with an event at noon and one on the
  closing midnight, has two active days, passes the filter and is in no bucket: the one
  emitted bucket holds 0, and there is one actor with matching events.
\<close>

theorem stickiness_omits_actor_with_range_days:
  "stickiness (example_world closing_midnight_events) closing_midnight_events no_filters
       closing_midnight_request
     = Inr \<lparr>st_labels = [''1 day''], st_days = [1], st_data = [0]\<rparr>
   \<and> actors (filter (filter_events (example_world closing_midnight_events)
                closing_midnight_request) closing_midnight_events) = [7]
   \<and> filter (\<lambda>r. snd r \<le> 2)
        (person_day_counts (filter (filter_events (example_world closing_midnight_events)
                closing_midnight_request) closing_midnight_events)) = [(7, 2)]"
  by code_simp

text \<open>
  C2, as the specification has it: \<open>range_days\<close> is \<open>(date_to - date_from).days + 2\<close>, the
  buckets are those of \<open>K = 1 .. range_days - 1\<close> in increasing order with 0 for a \<open>K\<close> without
  actors, and Scenario 2 (2020-01-01 to 2020-01-02) yields the labels 1 day, 2 days, 3 days
  and the data 1, 1, 0. The two dates are one day apart, so \<open>range_days\<close> is 3 and the code
  returns two buckets.
\<close>

theorem stickiness_scenario_2_counterexample:
  "stickiness (example_world scenario_2_events) scenario_2_events no_filters scenario_2_request
     \<noteq> Inr \<lparr>st_labels = [''1 day'', ''2 days'', ''3 days''], st_days = [1, 2, 3],
            st_data = [1, 1, 0]\<rparr>
   \<and> get_dates_from_request (example_world scenario_2_events) scenario_2_request
       = (Some (jan2020 1), jan2020 2)
   \<and> jan2020 2 - jan2020 1 + 2 = 3"
  by code_simp

text \<open>
  C2, amended: with both dates resolved, the days are \<open>1 .. (date_to - date_from) + 2 - 1\<close>
  in increasing order, the labels are those of the days, and the count of each \<open>K\<close> is the
  number of actors with exactly \<open>K\<close> active days among the matching events (0 when there is
  none); on Scenario 2 the result has the labels 1 day, 2 days and the data 1, 1.
\<close>

theorem stickiness_buckets:
  "(get_dates_from_request w req = (Some date_from, date_to) \<longrightarrow>
      (\<exists>r. stickiness w filtered_events flt req = Inr r
         \<and> st_days r = [1 .. (date_to - date_from) + 2 - 1]
         \<and> st_labels r = map day_label (st_days r)
         \<and> st_data r = map (\<lambda>k. int (length (actors_active
                (filter (filter_events w req) filtered_events) k))) (st_days r)))
   \<and> stickiness (example_world scenario_2_events) scenario_2_events no_filters
        scenario_2_request
       = Inr \<lparr>st_labels = [''1 day'', ''2 days''], st_days = [1, 2], st_data = [1, 1]\<rparr>"
proof (intro conjI impI)
  assume "get_dates_from_request w req = (Some date_from, date_to)"
  then show "\<exists>r. stickiness w filtered_events flt req = Inr r
         \<and> st_days r = [1 .. (date_to - date_from) + 2 - 1]
         \<and> st_labels r = map day_label (st_days r)
         \<and> st_data r = map (\<lambda>k. int (length (actors_active
                (filter (filter_events w req) filtered_events) k))) (st_days r)"
    by (rule stickiness_series)
next
  show "stickiness (example_world scenario_2_events) scenario_2_events no_filters
        scenario_2_request
       = Inr \<lparr>st_labels = [''1 day'', ''2 days''], st_days = [1, 2], st_data = [1, 1]\<rparr>"
    by code_simp
qed

theorem stickiness_buckets_witness:
  "get_dates_from_request (example_world scenario_2_events) scenario_2_request
     = (Some (jan2020 1), jan2020 2)
   \<and> (\<exists>r. stickiness (example_world scenario_2_events) scenario_2_events no_filters
             scenario_2_request = Inr r
         \<and> st_days r = [1, 2]
         \<and> st_labels r = [''1 day'', ''2 days'']
         \<and> st_data r = [1, 1])"
proof -
  let ?w = "example_world scenario_2_events"
  have dates: "get_dates_from_request ?w scenario_2_request = (Some (jan2020 1), jan2020 2)"
    by code_simp
  have days: "[1 .. (jan2020 2 - jan2020 1) + 2 - 1] = [1, 2]"
    by code_simp
  have labels: "map day_label [1, 2] = [''1 day'', ''2 days'']"
    by code_simp
  have data: "map (\<lambda>k. int (length (actors_active
                (filter (filter_events ?w scenario_2_request) scenario_2_events) k))) [1, 2]
              = [1, 1]"
    by code_simp
  from stickiness_buckets[of ?w scenario_2_request "jan2020 1" "jan2020 2"
      scenario_2_events no_filters] dates
  obtain r where "stickiness ?w scenario_2_events no_filters scenario_2_request = Inr r"
    "st_days r = [1 .. (jan2020 2 - jan2020 1) + 2 - 1]"
    "st_labels r = map day_label (st_days r)"
    "st_data r = map (\<lambda>k. int (length (actors_active
                (filter (filter_events ?w scenario_2_request) scenario_2_events) k))) (st_days r)"
    by blast
  then show ?thesis using dates days labels data by simp
qed

lemma resolved_date_from_None:
  "fst (get_dates_from_request w req) = None \<longleftrightarrow> GET_date_from req = Some ''all''"
  by (auto simp: get_dates_from_request_def present_def Let_def)

lemma stickiness_all:
  assumes "GET_date_from req = Some ''all''"
  shows "stickiness w es flt req = Inl TypeError"
  using assms resolved_date_from_None[of w req]
  by (cases "get_dates_from_request w req") (simp add: stickiness_def)

lemma serialize_entity_stickiness_all:
  assumes "GET_date_from req = Some ''all''" "GET_shown_as req = Some ''Stickiness''"
  shows "serialize_entity w ident name ent flt req = Inl TypeError"
  using assms by (simp add: serialize_entity_def stickiness_all[OF assms(1)])

text \<open>
  C10. The stickiness computation returns a histogram exactly when \<open>date_from\<close> resolves to
  a date. For \<open>date_from = all\<close> the start is \<open>None\<close>, the subtraction
  \<open>date_to - date_from\<close> raises, and so do the serialization of an entity shown as
  Stickiness and a trends request with an event entity.
\<close>

theorem stickiness_needs_date_from:
  "(fst (get_dates_from_request w req) = None \<longleftrightarrow> GET_date_from req = Some ''all'')
   \<and> (stickiness w filtered_events flt req = Inl TypeError \<longleftrightarrow> GET_date_from req = Some ''all'')
   \<and> ((\<exists>r. stickiness w filtered_events flt req = Inr r) \<longleftrightarrow> GET_date_from req \<noteq> Some ''all'')
   \<and> (GET_date_from req = Some ''all'' \<and> GET_shown_as req = Some ''Stickiness'' \<longrightarrow>
        serialize_entity w ident name ent flt req = Inl TypeError
        \<and> (nonempty (GET_events req) \<longrightarrow> trends w req = Inl TypeError))"
proof -
  have returns: "\<exists>r. stickiness w filtered_events flt req = Inr r"
    if "GET_date_from req \<noteq> Some ''all''"
  proof -
    from that resolved_date_from_None[of w req] obtain d t where "get_dates_from_request w req = (Some d, t)"
      by (cases "get_dates_from_request w req") auto
    from stickiness_series[OF this] show ?thesis by blast
  qed
  have trends: "trends w req = Inl TypeError"
    if "GET_date_from req = Some ''all''" "GET_shown_as req = Some ''Stickiness''"
      "nonempty (GET_events req)"
  proof -
    from that(3) obtain ev evs where "GET_events req = Some (ev # evs)"
      by (cases "GET_events req"; cases "the (GET_events req)") (auto simp: nonempty_def)
    then show ?thesis
      using that(3) by (simp add: trends_def serialize_entity_stickiness_all[OF that(1,2)])
  qed
  show ?thesis
    using resolved_date_from_None[of w req] stickiness_all[of req w filtered_events flt]
      returns serialize_entity_stickiness_all[of req w ident name ent flt] trends
    by (auto simp del: not_None_eq)
qed

theorem stickiness_needs_date_from_witness:
  "GET_date_from (scenario_2_request\<lparr>GET_date_from := Some ''all'',
       GET_events := Some [\<lparr>f_id = StrV ''$pageview'', f_math = None\<rparr>]\<rparr>) = Some ''all''
   \<and> stickiness (example_world scenario_2_events) scenario_2_events no_filters
       (scenario_2_request\<lparr>GET_date_from := Some ''all'',
          GET_events := Some [\<lparr>f_id = StrV ''$pageview'', f_math = None\<rparr>]\<rparr>) = Inl TypeError
   \<and> trends (example_world scenario_2_events)
       (scenario_2_request\<lparr>GET_date_from := Some ''all'',
          GET_events := Some [\<lparr>f_id = StrV ''$pageview'', f_math = None\<rparr>]\<rparr>) = Inl TypeError
   \<and> GET_date_from scenario_2_request \<noteq> Some ''all''
   \<and> (\<exists>r. stickiness (example_world scenario_2_events) scenario_2_events no_filters
        scenario_2_request = Inr r)"
proof -
  let ?w = "example_world scenario_2_events"
  let ?req = "scenario_2_request\<lparr>GET_date_from := Some ''all'',
       GET_events := Some [\<lparr>f_id = StrV ''$pageview'', f_math = None\<rparr>]\<rparr>"
  have a: "GET_date_from ?req = Some ''all''" by simp
  have s: "GET_shown_as ?req = Some ''Stickiness''" by (simp add: scenario_2_request_def)
  have n: "nonempty (GET_events ?req)" by (simp add: nonempty_def)
  have b: "GET_date_from scenario_2_request \<noteq> Some ''all''"
    by (simp add: scenario_2_request_def)
  from stickiness_needs_date_from[of ?w ?req scenario_2_events no_filters NoneV NoneV
      "EventEntity \<lparr>f_id = StrV ''$pageview'', f_math = None\<rparr>"] a s n
  have "stickiness ?w scenario_2_events no_filters ?req = Inl TypeError"
    "trends ?w ?req = Inl TypeError"
    by blast+
  moreover from stickiness_needs_date_from[of ?w scenario_2_request scenario_2_events no_filters] b
  have "\<exists>r. stickiness ?w scenario_2_events no_filters scenario_2_request = Inr r"
    by blast
  ultimately show ?thesis using a b by blast
qed

section \<open>Properties of grouped queries\<close>

lemma Count_modes:
  "q_count (process_math q flt) es
     = (if f_math flt = Some ''dau'' then card (distinct_id ` set es) else q_count q es)"
  by (simp add: process_math_def Count_distinct_card)

lemma process_math_fields:
  "q_source (process_math q flt) = q_source q"
  "q_values (process_math q flt) = q_values q"
  "q_order_by_count (process_math q flt) = q_order_by_count q"
  by (simp_all add: process_math_def)

lemma set_rows:
  "set (rows q) = (\<lambda>k. (k, q_count q (filter (\<lambda>e. q_values q e = k) (q_source q))))
                    ` q_values q ` set (q_source q)"
  by (simp add: rows_def Let_def set_distinct_values)

lemma distinct_map_sort_key: "distinct (map g (sort_key f xs)) = distinct (map g xs)"
  by (simp add: distinct_map)

lemma distinct_keys_rows: "distinct (map fst (rows q))"
  by (simp add: rows_def Let_def distinct_map_sort_key comp_def distinct_distinct_values)

lemma rows_unordered:
  assumes "\<not> q_order_by_count q"
  shows "rows q = map (\<lambda>k. (k, q_count q (filter (\<lambda>e. q_values q e = k) (q_source q))))
                    (distinct_values (map (q_values q) (q_source q)))"
  using assms by (simp add: rows_def)

lemma rows_ordered:
  assumes "q_order_by_count q"
  shows "sorted_wrt (\<lambda>a b. b \<le> a) (map snd (rows q))"
proof -
  let ?g = "map (\<lambda>k. (k, q_count q (filter (\<lambda>e. q_values q e = k) (q_source q))))
              (distinct_values (map (q_values q) (q_source q)))"
  have "sorted (map (\<lambda>r. - int (snd r)) (sort_key (\<lambda>r. - int (snd r)) ?g))"
    by (rule sorted_sort_key)
  then have "sorted_wrt (\<lambda>a b. - int (snd a) \<le> - int (snd b)) (rows q)"
    using assms by (simp add: rows_def sorted_map)
  then have "sorted_wrt (\<lambda>a b. snd b \<le> snd a) (rows q)"
    by (rule sorted_wrt_mono_rel[rotated]) simp
  then show ?thesis by (simp add: sorted_wrt_map)
qed

lemma date_of_midnight: "date_of (midnight d) = d"
  by (simp add: date_of_def midnight_def day_us_def)

lemma date_of_TruncDay: "date_of (TruncDay t) = date_of t"
  by (simp add: TruncDay_def date_of_midnight)

lemma TruncDay_eq_iff: "TruncDay t = k \<longleftrightarrow> date_of t = date_of k \<and> k = midnight (date_of k)"
  by (auto simp: TruncDay_def date_of_midnight)

section \<open>Properties of the daily series\<close>

lemma day_aggregates_rows:
  "day_aggregates w filtered_events flt req =
     map (\<lambda>k. (k, count_in_mode (f_math flt)
                  (filter (\<lambda>e. TruncDay (timestamp e) = k)
                     (filter (filter_events w req) filtered_events))))
       (distinct_values (map (\<lambda>e. TruncDay (timestamp e))
          (filter (filter_events w req) filtered_events)))"
  by (simp add: day_aggregates_def rows_unordered process_math_fields Count_modes
      count_in_mode_def Count_id_def)

lemma day_aggregates_frame:
  "map (\<lambda>a. (date_of (fst a), (of_nat (snd a) :: rat)))
       (day_aggregates w filtered_events flt req)
   = map (\<lambda>d. (d, of_nat (count_in_mode (f_math flt)
                   (events_on (filter (filter_events w req) filtered_events) d))))
       (map date_of (distinct_values (map (\<lambda>e. TruncDay (timestamp e))
          (filter (filter_events w req) filtered_events))))"
proof -
  let ?F = "filter (filter_events w req) filtered_events"
  have "filter (\<lambda>e. TruncDay (timestamp e) = k) ?F = events_on ?F (date_of k)"
    if "k \<in> set (distinct_values (map (\<lambda>e. TruncDay (timestamp e)) ?F))" for k
  proof -
    from that obtain e :: event where "k = TruncDay (timestamp e)"
      by (auto simp: set_distinct_values)
    then have "k = midnight (date_of k)"
      by (simp add: TruncDay_def date_of_midnight)
    then have "TruncDay t = k \<longleftrightarrow> date_of t = date_of k" for t
      using TruncDay_eq_iff[of t k] by simp
    then show ?thesis by (simp add: events_on_def)
  qed
  then show ?thesis
    by (simp add: day_aggregates_rows)
qed

lemma distinct_aggregate_dates:
  "distinct (map date_of (distinct_values (map (\<lambda>e. TruncDay (timestamp e)) es)))"
proof -
  have "inj_on date_of (set (distinct_values (map (\<lambda>e. TruncDay (timestamp e)) es)))"
    by (auto simp: inj_on_def set_distinct_values TruncDay_def date_of_midnight)
  then show ?thesis
    by (simp add: distinct_map distinct_distinct_values)
qed

lemma set_aggregate_dates:
  "set (map date_of (distinct_values (map (\<lambda>e. TruncDay (timestamp e)) es)))
     = (\<lambda>e. date_of (timestamp e)) ` set es"
  by (auto simp: set_distinct_values date_of_TruncDay image_iff)

lemma filter_key_distinct:
  assumes "distinct ds"
  shows "map snd (filter (\<lambda>r. fst r = d) (map (\<lambda>x. (x, f x)) ds))
           = (if d \<in> set ds then [f d] else [])"
  using assms by (induction ds) auto

lemma mean_single: "mean [c] = c"
  by (simp add: mean_def)

lemma count_in_mode_Nil: "count_in_mode m [] = 0"
  by (simp add: count_in_mode_def)

lemma events_on_empty:
  assumes "d \<notin> (\<lambda>e. date_of (timestamp e)) ` set es"
  shows "events_on es d = []"
  using assms by (auto simp: events_on_def filter_empty_conv)

text \<open>
  The filled frame over any start: one row for each date from the start to \<open>date_to\<close>, with
  the count of the events of that date in the math mode of the entity.
\<close>

lemma group_events_to_date_day_aggregates:
  assumes "day_aggregates w filtered_events flt req \<noteq> []"
  shows "group_events_to_date start date_to (day_aggregates w filtered_events flt req)
           = Inr (map (\<lambda>d. (d, of_nat (count_in_mode (f_math flt)
                     (events_on (filter (filter_events w req) filtered_events) d))))
                   [start..date_to])"
proof -
  let ?F = "filter (filter_events w req) filtered_events"
  let ?ds = "map date_of (distinct_values (map (\<lambda>e. TruncDay (timestamp e)) ?F))"
  let ?c = "\<lambda>d. (of_nat (count_in_mode (f_math flt) (events_on ?F d)) :: rat)"
  have "(case map snd (filter (\<lambda>r. fst r = d) (map (\<lambda>x. (x, ?c x)) ?ds)) of
           [] \<Rightarrow> 0 | c # cs \<Rightarrow> mean (c # cs)) = ?c d" for d
  proof (cases "d \<in> set ?ds")
    case True
    then show ?thesis
      by (simp only: filter_key_distinct[OF distinct_aggregate_dates] if_True list.case mean_single)
  next
    case False
    then have "events_on ?F d = []"
      by (intro events_on_empty) (simp only: set_aggregate_dates not_False_eq_True)
    with False show ?thesis
      by (simp only: filter_key_distinct[OF distinct_aggregate_dates] if_False list.case
          count_in_mode_Nil of_nat_0)
  qed
  then show ?thesis
    using assms
    by (simp add: group_events_to_date_def day_aggregates_frame date_range_def Let_def)
qed

lemma aggregate_by_day_series:
  assumes rows: "day_aggregates w filtered_events flt req = first # rest"
    and dates: "get_dates_from_request w req = (date_from, date_to)"
  shows "aggregate_by_day w filtered_events flt req =
           Inr (let a = append_data w empty_append
                          (map (\<lambda>d. (d, of_nat (count_in_mode (f_math flt)
                                  (events_on (filter (filter_events w req) filtered_events) d))))
                             [effective_date_from date_from first .. date_to])
                in if present (GET_breakdown req)
                   then breakdown w a filtered_events flt req (the (GET_breakdown req))
                   else a)"
proof -
  have "day_aggregates w filtered_events flt req \<noteq> []"
    using rows by simp
  from group_events_to_date_day_aggregates[OF this, of "effective_date_from date_from first" date_to]
  show ?thesis
    using rows dates by (simp add: aggregate_by_day_def Let_def)
qed

lemma append_data_fields:
  "ap_labels (append_data w a df) = Some (map (\<lambda>r. strftime w ''%a. %-d %B'' (fst r)) df)"
  "ap_days (append_data w a df) = Some (map (\<lambda>r. strftime w ''%Y-%m-%d'' (fst r)) df)"
  "ap_data (append_data w a df) = Some (map snd df)"
  "ap_count (append_data w a df) = Some (sum_list (map snd df))"
  "ap_breakdown (append_data w a df) = ap_breakdown a"
  by (simp_all add: append_data_def Let_def)

lemma breakdown_fields:
  "ap_labels (breakdown w a es flt req key) = ap_labels a"
  "ap_days (breakdown w a es flt req key) = ap_days a"
  "ap_data (breakdown w a es flt req key) = ap_data a"
  "ap_count (breakdown w a es flt req key)
     = Some (of_nat (sum_list (map snd (breakdown_rows w es flt req key))))"
  "ap_breakdown (breakdown w a es flt req key)
     = Some (map (\<lambda>r. \<lparr>bd_name = breakdown_name (fst r), bd_count = snd r\<rparr>)
               (breakdown_rows w es flt req key))"
  by (simp_all add: breakdown_def Let_def comp_def)

lemma midnight_mono: "midnight a \<le> midnight b \<longleftrightarrow> a \<le> b"
  by (simp add: midnight_def day_us_def)

lemma date_of_mono: "s \<le> t \<Longrightarrow> date_of s \<le> date_of t"
  by (simp add: date_of_def day_us_def zdiv_mono1)

text \<open>The start of the series is at most one day after \<open>date_to\<close>.\<close>

lemma effective_date_from_le:
  assumes rows: "day_aggregates w filtered_events flt req = first # rest"
    and dates: "get_dates_from_request w req = (date_from, date_to)"
  shows "effective_date_from date_from first \<le> date_to + 1"
proof -
  let ?F = "filter (filter_events w req) filtered_events"
  have "fst first \<in> fst ` set (day_aggregates w filtered_events flt req)"
    using rows by simp
  then obtain e :: event where e: "e \<in> set ?F" "fst first = TruncDay (timestamp e)"
    by (auto simp: day_aggregates_rows set_distinct_values image_iff)
  from e(1) have upper: "timestamp e \<le> midnight (date_to + 1)"
    by (simp add: filter_events_def dates)
  show ?thesis
  proof (cases date_from)
    case None
    from upper have "date_of (timestamp e) \<le> date_of (midnight (date_to + 1))"
      by (rule date_of_mono)
    then show ?thesis
      using None e(2) by (simp add: effective_date_from_def date_of_TruncDay date_of_midnight)
  next
    case (Some d)
    with e(1) have "midnight d \<le> timestamp e"
      by (simp add: filter_events_def dates)
    with upper have "midnight d \<le> midnight (date_to + 1)" by simp
    then show ?thesis
      using Some by (simp add: effective_date_from_def midnight_mono)
  qed
qed

lemma nth_upto_int: "i < length [a..b] \<Longrightarrow> [a..b] ! i = a + int i"
  by simp

lemma aggregate_dates:
  "(\<lambda>r. date_of (fst r)) ` set (day_aggregates w filtered_events flt req)
     = (\<lambda>e. date_of (timestamp e)) ` set (filter (filter_events w req) filtered_events)"
proof -
  have "(\<lambda>r. date_of (fst r)) ` set (day_aggregates w filtered_events flt req)
          = set (map date_of (distinct_values (map (\<lambda>e. TruncDay (timestamp e))
              (filter (filter_events w req) filtered_events))))"
    by (simp add: day_aggregates_rows image_image)
  then show ?thesis
    by (simp only: set_aggregate_dates)
qed

lemma list_of_three: "length xs = 3 \<Longrightarrow> xs = [xs ! 0, xs ! 1, xs ! 2]"
  by (auto simp: length_Suc_conv numeral_3_eq_3)

section \<open>Claims on the daily aggregator\<close>

text \<open>
  C3. When the grouped query has a row, the series runs over the dates from the effective
  \<open>date_from\<close> (the resolved one, or the day of the first row when there is none) to
  \<open>date_to\<close>: the list \<open>days\<close> has exactly \<open>(date_to - date_from).days + 1\<close> entries, the
  \<open>i\<close>-th being the rendering of the date \<open>i\<close> days after the start, so that consecutive
  entries are one calendar day apart, without gap, and without duplicate when \<^verbatim>\<open>strftime\<close>
  renders distinct dates differently. \<open>data\<close> has one number for each of these dates, 0 for
  a date with no grouped row, and the \<open>count\<close> that \<^verbatim>\<open>_append_data\<close> sets is the sum of
  \<open>data\<close>. It is the count of the result unless a breakdown is requested, which replaces it
  by the sum of the breakdown counts (section 4.5 of the specification).
\<close>

theorem daily_series_gap_free:
  assumes rows: "day_aggregates w filtered_events flt req = first # rest"
    and dates: "get_dates_from_request w req = (date_from, date_to)"
  shows "\<exists>a days data.
      aggregate_by_day w filtered_events flt req = Inr a
    \<and> ap_days a = Some days
    \<and> int (length days) = date_to - effective_date_from date_from first + 1
    \<and> (\<forall>i < length days.
          days ! i = strftime w ''%Y-%m-%d'' (effective_date_from date_from first + int i))
    \<and> (inj (strftime w ''%Y-%m-%d'') \<longrightarrow> distinct days)
    \<and> ap_data a = Some data
    \<and> length data = length days
    \<and> (\<forall>i < length data.
          effective_date_from date_from first + int i
            \<notin> (\<lambda>r. date_of (fst r)) ` set (first # rest) \<longrightarrow> data ! i = 0)
    \<and> ap_count (append_data w empty_append
          (map (\<lambda>d. (d, of_nat (count_in_mode (f_math flt)
                  (events_on (filter (filter_events w req) filtered_events) d))))
             [effective_date_from date_from first .. date_to])) = Some (sum_list data)
    \<and> (\<not> present (GET_breakdown req) \<longrightarrow> ap_count a = Some (sum_list data))"
proof -
  let ?F = "filter (filter_events w req) filtered_events"
  let ?s = "effective_date_from date_from first"
  let ?c = "\<lambda>d. (of_nat (count_in_mode (f_math flt) (events_on ?F d)) :: rat)"
  let ?filled = "map (\<lambda>d. (d, ?c d)) [?s .. date_to]"
  let ?base = "append_data w empty_append ?filled"
  let ?a = "if present (GET_breakdown req)
            then breakdown w ?base filtered_events flt req (the (GET_breakdown req)) else ?base"
  let ?days = "map (strftime w ''%Y-%m-%d'') [?s .. date_to]"
  let ?data = "map ?c [?s .. date_to]"
  have result: "aggregate_by_day w filtered_events flt req = Inr ?a"
    using aggregate_by_day_series[OF rows dates] by (simp add: Let_def)
  have days: "ap_days ?a = Some ?days"
    by (simp add: append_data_fields breakdown_fields comp_def)
  have data: "ap_data ?a = Some ?data"
    by (simp add: append_data_fields breakdown_fields comp_def)
  have len: "int (length ?days) = date_to - ?s + 1"
    using effective_date_from_le[OF rows dates] by simp
  have nth: "\<forall>i < length ?days. ?days ! i = strftime w ''%Y-%m-%d'' (?s + int i)"
    by simp
  have dist: "inj (strftime w ''%Y-%m-%d'') \<longrightarrow> distinct ?days"
    by (auto simp: distinct_map intro: inj_on_subset)
  have row_dates: "(\<lambda>r. date_of (fst r)) ` set (first # rest)
      = (\<lambda>e. date_of (timestamp e)) ` set ?F"
    using aggregate_dates[of w filtered_events flt req] by (simp only: rows)
  have zero: "\<forall>i < length ?data.
      ?s + int i \<notin> (\<lambda>r. date_of (fst r)) ` set (first # rest) \<longrightarrow> ?data ! i = 0"
  proof (intro allI impI)
    fix i
    assume i: "i < length ?data"
      and notin: "?s + int i \<notin> (\<lambda>r. date_of (fst r)) ` set (first # rest)"
    have "?s + int i \<notin> (\<lambda>e. date_of (timestamp e)) ` set ?F"
      using notin unfolding row_dates .
    then have "events_on ?F (?s + int i) = []"
      by (rule events_on_empty)
    then have "?c (?s + int i) = 0"
      by (simp add: count_in_mode_Nil)
    moreover from i have "?data ! i = ?c (?s + int i)"
      by simp
    ultimately show "?data ! i = 0" by simp
  qed
  have count0: "ap_count ?base = Some (sum_list ?data)"
    by (simp add: append_data_fields comp_def)
  have count: "\<not> present (GET_breakdown req) \<longrightarrow> ap_count ?a = Some (sum_list ?data)"
  proof
    assume np: "\<not> present (GET_breakdown req)"
    show "ap_count ?a = Some (sum_list ?data)"
      unfolding if_not_P[OF np] by (rule count0)
  qed
  have "length ?data = length ?days" by simp
  with result days len nth dist data zero count0 count show ?thesis
    by blast
qed

theorem daily_series_gap_free_witness:
  "day_aggregates (example_world scenario_1_events) scenario_1_events no_filters
      scenario_1_request = [(midnight (jan2020 1), 2), (midnight (jan2020 3), 1)]
   \<and> get_dates_from_request (example_world scenario_1_events) scenario_1_request
       = (Some (jan2020 1), jan2020 3)
   \<and> (\<exists>a data.
        aggregate_by_day (example_world scenario_1_events) scenario_1_events no_filters
          scenario_1_request = Inr a
      \<and> ap_days a = Some [''2020-01-01'', ''2020-01-02'', ''2020-01-03'']
      \<and> ap_data a = Some data
      \<and> length data = 3
      \<and> data ! 1 = 0
      \<and> ap_count a = Some (sum_list data))"
proof -
  let ?w = "example_world scenario_1_events"
  let ?first = "(midnight (jan2020 1), 2::nat)"
  let ?rest = "[(midnight (jan2020 3), 1::nat)]"
  have rows: "day_aggregates ?w scenario_1_events no_filters scenario_1_request = ?first # ?rest"
    by code_simp
  have dates: "get_dates_from_request ?w scenario_1_request = (Some (jan2020 1), jan2020 3)"
    by code_simp
  have start: "effective_date_from (Some (jan2020 1)) ?first = jan2020 1"
    by (simp add: effective_date_from_def)
  have no_breakdown: "\<not> present (GET_breakdown scenario_1_request)"
    by code_simp
  have gap: "jan2020 1 + int 1 \<notin> (\<lambda>r. date_of (fst r)) ` set (?first # ?rest)"
    by (simp add: date_of_midnight jan2020_def)
  have render: "strftime ?w ''%Y-%m-%d'' (jan2020 1 + int 0) = ''2020-01-01''"
    "strftime ?w ''%Y-%m-%d'' (jan2020 1 + int 1) = ''2020-01-02''"
    "strftime ?w ''%Y-%m-%d'' (jan2020 1 + int 2) = ''2020-01-03''"
    by code_simp+
  from daily_series_gap_free[OF rows dates] no_breakdown
  obtain a days data where r:
    "aggregate_by_day ?w scenario_1_events no_filters scenario_1_request = Inr a"
    "ap_days a = Some days"
    "int (length days) = jan2020 3 - jan2020 1 + 1"
    "\<forall>i < length days. days ! i = strftime ?w ''%Y-%m-%d'' (jan2020 1 + int i)"
    "ap_data a = Some data"
    "length data = length days"
    "\<forall>i < length data. jan2020 1 + int i \<notin> (\<lambda>r. date_of (fst r)) ` set (?first # ?rest)
        \<longrightarrow> data ! i = 0"
    "ap_count a = Some (sum_list data)"
    unfolding start by blast
  from r(3) have n: "length days = 3"
    by (simp add: jan2020_def)
  with r(4) render have "days ! 0 = ''2020-01-01''" "days ! 1 = ''2020-01-02''"
    "days ! 2 = ''2020-01-03''"
    by simp_all
  with list_of_three[OF n] have "days = [''2020-01-01'', ''2020-01-02'', ''2020-01-03'']"
    by simp
  moreover have "data ! 1 = 0"
  proof -
    have "1 < length data" using r(6) n by simp
    with r(7) gap show ?thesis by blast
  qed
  moreover have "length data = 3" using r(6) n by simp
  ultimately show ?thesis
    using rows dates r(1,2,5,8) by blast
qed

text \<open>
  C4. The specification states that with \<open>date_from = all\<close> the series starts at the earliest
  day among the grouped rows, in whatever order the rows are returned. The code takes the day
  of \<^verbatim>\<open>aggregates[0]\<close>, the first row, of a query whose order it has cleared with
  \<^verbatim>\<open>.order_by()\<close>. With the row of 5 January returned before that of 3 January, the
  series starts on 5 January and the two events of 3 January are in no day of it.
\<close>

theorem series_starts_at_first_row_not_earliest:
  "get_dates_from_request (example_world later_day_first_events) all_dates_request
     = (None, jan2020 5)
   \<and> day_aggregates (example_world later_day_first_events) later_day_first_events no_filters
       all_dates_request = [(midnight (jan2020 5), 1), (midnight (jan2020 3), 2)]
   \<and> effective_date_from None (midnight (jan2020 5), 1) = jan2020 5
   \<and> aggregate_by_day (example_world later_day_first_events) later_day_first_events no_filters
       all_dates_request
       = Inr \<lparr>ap_labels = Some [''Sun. 5 January''], ap_days = Some [''2020-01-05''],
              ap_data = Some [1], ap_count = Some 1, ap_breakdown = None\<rparr>"
  by code_simp

text \<open>
  What holds for every order: with no resolved \<open>date_from\<close> the series starts at the day
  of the first row, which is the earliest day when the store returns the rows by ascending
  day.
\<close>

lemma effective_date_from_first_row:
  "effective_date_from None first = date_of (fst first)"
  "effective_date_from (Some d) first = d"
  by (simp_all add: effective_date_from_def)

lemma effective_date_from_earliest_when_sorted:
  assumes "sorted (map (\<lambda>r. date_of (fst r)) (first # rest))"
    and "r \<in> set (first # rest)"
  shows "effective_date_from None first \<le> date_of (fst r)"
  using assms by (auto simp: effective_date_from_def)

section \<open>Claims on the breakdown aggregator and the math mode\<close>

lemma set_breakdown_rows:
  "set (breakdown_rows w es flt req key)
     = (\<lambda>v. (v, count_in_mode (f_math flt)
                 (events_with (filter (filter_events w req) es) key v)))
         ` (\<lambda>e. map_of (properties e) key) ` set (filter (filter_events w req) es)"
  unfolding breakdown_rows_def set_rows process_math_fields
  by (simp add: Count_modes count_in_mode_def events_with_def Count_id_def cong: if_cong)

lemma breakdown_rows_sorted:
  "sorted_wrt (\<lambda>a b. b \<le> a) (map snd (breakdown_rows w es flt req key))"
  unfolding breakdown_rows_def
  by (rule rows_ordered) (simp add: process_math_fields)

text \<open>
  C5. The breakdown has one entry for each value of the property among the matching events
  (a missing property being a value of its own), named by the value, or \<open>undefined\<close> when
  the property is missing or null; the entries are in descending order of count; the count of
  the entity is the sum of the counts of the entries. On Scenario 3 the result is Chrome 3,
  undefined 2, Safari 1, and the count 6.
\<close>

theorem breakdown_grouped_sorted_summed:
  "(\<exists>items.
       ap_breakdown (breakdown w a es flt req key) = Some items
     \<and> map bd_name items = map (\<lambda>r. breakdown_name (fst r)) (breakdown_rows w es flt req key)
     \<and> map bd_count items = map snd (breakdown_rows w es flt req key)
     \<and> sorted_wrt (\<lambda>x y. bd_count y \<le> bd_count x) items
     \<and> ap_count (breakdown w a es flt req key) = Some (of_nat (sum_list (map bd_count items))))
   \<and> distinct (map fst (breakdown_rows w es flt req key))
   \<and> set (breakdown_rows w es flt req key)
       = (\<lambda>v. (v, count_in_mode (f_math flt)
                   (events_with (filter (filter_events w req) es) key v)))
           ` (\<lambda>e. map_of (properties e) key) ` set (filter (filter_events w req) es)
   \<and> breakdown_name None = StrV ''undefined''
   \<and> breakdown_name (Some NoneV) = StrV ''undefined''
   \<and> breakdown (example_world scenario_3_events) empty_append scenario_3_events no_filters
        scenario_3_request ''$browser''
       = \<lparr>ap_labels = None, ap_days = None, ap_data = None, ap_count = Some 6,
          ap_breakdown = Some [\<lparr>bd_name = StrV ''Chrome'', bd_count = 3\<rparr>,
                               \<lparr>bd_name = StrV ''undefined'', bd_count = 2\<rparr>,
                               \<lparr>bd_name = StrV ''Safari'', bd_count = 1\<rparr>]\<rparr>"
proof -
  let ?rows = "breakdown_rows w es flt req key"
  let ?items = "map (\<lambda>r. \<lparr>bd_name = breakdown_name (fst r), bd_count = snd r\<rparr>) ?rows"
  have "sorted_wrt (\<lambda>x y. bd_count y \<le> bd_count x) ?items"
    using breakdown_rows_sorted[of w es flt req key] by (simp add: sorted_wrt_map)
  moreover have "ap_breakdown (breakdown w a es flt req key) = Some ?items"
    by (simp add: breakdown_fields)
  moreover have "map bd_name ?items = map (\<lambda>r. breakdown_name (fst r)) ?rows"
    "map bd_count ?items = map snd ?rows"
    by (simp_all add: comp_def)
  moreover have "ap_count (breakdown w a es flt req key)
      = Some (of_nat (sum_list (map bd_count ?items)))"
    by (simp add: breakdown_fields comp_def)
  ultimately have items: "\<exists>items.
       ap_breakdown (breakdown w a es flt req key) = Some items
     \<and> map bd_name items = map (\<lambda>r. breakdown_name (fst r)) ?rows
     \<and> map bd_count items = map snd ?rows
     \<and> sorted_wrt (\<lambda>x y. bd_count y \<le> bd_count x) items
     \<and> ap_count (breakdown w a es flt req key) = Some (of_nat (sum_list (map bd_count items)))"
    by blast
  have keys: "distinct (map fst ?rows)"
    unfolding breakdown_rows_def by (rule distinct_keys_rows)
  have names: "breakdown_name None = StrV ''undefined''"
    "breakdown_name (Some NoneV) = StrV ''undefined''"
    by (simp_all add: breakdown_name_def)
  have scenario: "breakdown (example_world scenario_3_events) empty_append scenario_3_events
        no_filters scenario_3_request ''$browser''
       = \<lparr>ap_labels = None, ap_days = None, ap_data = None, ap_count = Some 6,
          ap_breakdown = Some [\<lparr>bd_name = StrV ''Chrome'', bd_count = 3\<rparr>,
                               \<lparr>bd_name = StrV ''undefined'', bd_count = 2\<rparr>,
                               \<lparr>bd_name = StrV ''Safari'', bd_count = 1\<rparr>]\<rparr>"
    by code_simp
  from items keys set_breakdown_rows[of w es flt req key] names scenario
  show ?thesis by blast
qed

theorem breakdown_grouped_sorted_summed_witness:
  "\<exists>items.
       ap_breakdown (breakdown (example_world scenario_3_events) empty_append scenario_3_events
          dau_filters scenario_3_request ''$browser'') = Some items
     \<and> map bd_name items = [StrV ''Chrome'', StrV ''undefined'', StrV ''Safari'']
     \<and> map bd_count items = [2, 2, 1]
     \<and> sorted_wrt (\<lambda>x y. bd_count y \<le> bd_count x) items
     \<and> ap_count (breakdown (example_world scenario_3_events) empty_append scenario_3_events
          dau_filters scenario_3_request ''$browser'') = Some 5"
proof -
  let ?w = "example_world scenario_3_events"
  have rows: "breakdown_rows ?w scenario_3_events dau_filters scenario_3_request ''$browser''
      = [(Some (StrV ''Chrome''), 2), (None, 2), (Some (StrV ''Safari''), 1)]"
    by code_simp
  have names: "map (\<lambda>r. breakdown_name (fst r))
       [(Some (StrV ''Chrome''), 2::nat), (None, 2), (Some (StrV ''Safari''), 1)]
      = [StrV ''Chrome'', StrV ''undefined'', StrV ''Safari'']"
    by code_simp
  from breakdown_grouped_sorted_summed[of ?w empty_append scenario_3_events dau_filters
      scenario_3_request "''$browser''"]
  obtain items where
    "ap_breakdown (breakdown ?w empty_append scenario_3_events dau_filters scenario_3_request
        ''$browser'') = Some items"
    "map bd_name items = map (\<lambda>r. breakdown_name (fst r))
        (breakdown_rows ?w scenario_3_events dau_filters scenario_3_request ''$browser'')"
    "map bd_count items
       = map snd (breakdown_rows ?w scenario_3_events dau_filters scenario_3_request ''$browser'')"
    "sorted_wrt (\<lambda>x y. bd_count y \<le> bd_count x) items"
    "ap_count (breakdown ?w empty_append scenario_3_events dau_filters scenario_3_request
        ''$browser'') = Some (of_nat (sum_list (map bd_count items)))"
    by blast
  then show ?thesis
    unfolding rows names by (intro exI[of _ items]) simp
qed



text \<open>
  The two counts agree on every group in which the distinct id and the person determine
  each other.
\<close>

lemma card_image_same_kernel:
  assumes "\<And>x y. x \<in> S \<Longrightarrow> y \<in> S \<Longrightarrow> (f x = f y \<longleftrightarrow> g x = g y)"
  shows "card (f ` S) = card (g ` S)"
proof -
  define h where "h = (\<lambda>a. g (SOME x. x \<in> S \<and> f x = a))"
  have pick: "(SOME x. x \<in> S \<and> f x = f y) \<in> S \<and> f (SOME x. x \<in> S \<and> f x = f y) = f y"
    if "y \<in> S" for y
    using that by (intro someI[of "\<lambda>x. x \<in> S \<and> f x = f y" y]) simp
  have h: "h (f y) = g y" if "y \<in> S" for y
    using pick[OF that] assms that unfolding h_def by blast
  have "bij_betw h (f ` S) (g ` S)"
    unfolding bij_betw_def
  proof
    show "inj_on h (f ` S)"
      by (auto simp: inj_on_def h assms)
    show "h ` f ` S = g ` S"
      by (auto simp: h image_iff)
  qed
  then show ?thesis by (rule bij_betw_same_card)
qed

lemma dau_count_is_actors_when_ids_match:
  assumes "\<And>e e'. e \<in> set es \<Longrightarrow> e' \<in> set es \<Longrightarrow>
             (distinct_id e = distinct_id e' \<longleftrightarrow> person_id e = person_id e')"
  shows "count_in_mode (Some ''dau'') es = length (actors es)"
proof -
  have "card (distinct_id ` set es) = card (person_id ` set es)"
    using assms by (rule card_image_same_kernel)
  then show ?thesis
    by (simp add: count_in_mode_def actors_def length_remdups_card_conv)
qed



section \<open>Claims on trends\<close>

lemma aggregate_by_day_total: "\<exists>a. aggregate_by_day w es flt req = Inr a"
proof (cases "day_aggregates w es flt req")
  case Nil
  then show ?thesis by (simp add: aggregate_by_day_def Let_def)
next
  case (Cons first rest)
  obtain date_from date_to where "get_dates_from_request w req = (date_from, date_to)"
    by (cases "get_dates_from_request w req")
  from aggregate_by_day_series[OF Cons this] show ?thesis by blast
qed

lemma stickiness_total:
  assumes "GET_date_from req \<noteq> Some ''all''"
  shows "\<exists>r. stickiness w es flt req = Inr r"
proof -
  from assms resolved_date_from_None[of w req]
  obtain d t where "get_dates_from_request w req = (Some d, t)"
    by (cases "get_dates_from_request w req") auto
  from stickiness_series[OF this] show ?thesis by blast
qed

lemma serialize_entity_total:
  assumes "\<not> (GET_shown_as req = Some ''Stickiness'' \<and> GET_date_from req = Some ''all'')"
  shows "\<exists>s. serialize_entity w ident name ent flt req = Inr s"
proof -
  obtain a where a: "aggregate_by_day w (process_entity_for_events w ent) flt req = Inr a"
    using aggregate_by_day_total by blast
  show ?thesis
  proof (cases "GET_shown_as req = Some ''Stickiness''")
    case True
    with assms have "GET_date_from req \<noteq> Some ''all''" by simp
    from stickiness_total[OF this]
    obtain r where "stickiness w (process_entity_for_events w ent) flt req = Inr r"
      by blast
    with True show ?thesis by (simp add: serialize_entity_def)
  next
    case False
    with a show ?thesis by (simp add: serialize_entity_def Let_def)
  qed
qed

lemma serialize_entity_projr:
  assumes "\<not> (GET_shown_as req = Some ''Stickiness'' \<and> GET_date_from req = Some ''all'')"
  shows "serialize_entity w ident name ent flt req
           = Inr (projr (serialize_entity w ident name ent flt req))"
  using serialize_entity_total[OF assms, of w ident name ent flt] by auto

lemma trends_events_eq:
  assumes "\<not> (GET_shown_as req = Some ''Stickiness'' \<and> GET_date_from req = Some ''all'')"
  shows "trends_events w req evs actions_list
           = Inr (actions_list @ filter (\<lambda>s. se_labels s \<noteq> None)
                                    (map (\<lambda>ev. projr (event_result w req ev)) evs))"
proof (induction evs arbitrary: actions_list)
  case Nil
  then show ?case by simp
next
  case (Cons ev evs)
  have "serialize_entity w (f_id ev) (f_id ev) (EventEntity ev) ev req
          = Inr (projr (event_result w req ev))"
    unfolding event_result_def by (rule serialize_entity_projr[OF assms])
  then show ?case
    by (simp add: Cons.IH)
qed

lemma trends_actions_eq:
  assumes "\<not> (GET_shown_as req = Some ''Stickiness'' \<and> GET_date_from req = Some ''all'')"
  shows "trends_actions w req actions fs actions_list
           = Inr (actions_list @ map (\<lambda>(flt, a). projr (action_result w req flt a))
                    (concat (map (\<lambda>flt. case find (\<lambda>a. a_id a = f_id flt) actions of
                                           None \<Rightarrow> [] | Some a \<Rightarrow> [(flt, a)]) fs)))"
proof (induction fs arbitrary: actions_list)
  case Nil
  then show ?case by simp
next
  case (Cons flt fs)
  show ?case
  proof (cases "find (\<lambda>a. a_id a = f_id flt) actions")
    case None
    then show ?thesis by (simp add: Cons.IH)
  next
    case (Some a)
    have "serialize_entity w (NumV (of_nat (a_id a))) (StrV (a_name a)) (ActionEntity a) flt req
            = Inr (projr (action_result w req flt a))"
      unfolding action_result_def by (rule serialize_entity_projr[OF assms])
    with Some show ?thesis by (simp add: Cons.IH)
  qed
qed

lemma trends_default_eq:
  assumes "\<not> (GET_shown_as req = Some ''Stickiness'' \<and> GET_date_from req = Some ''all'')"
  shows "trends_default w req actions actions_list
           = Inr (actions_list @ map (\<lambda>a. projr (action_result w req no_filters a)) actions)"
proof (induction actions arbitrary: actions_list)
  case Nil
  then show ?case by simp
next
  case (Cons a actions)
  have "serialize_entity w (NumV (of_nat (a_id a))) (StrV (a_name a)) (ActionEntity a)
            \<lparr>f_id = (), f_math = None\<rparr> req
          = Inr (projr (action_result w req no_filters a))"
    unfolding action_result_def no_filters_def by (rule serialize_entity_projr[OF assms])
  then show ?case by (simp add: Cons.IH)
qed

text \<open>In Volume mode an entity has a series exactly when it has a matching event.\<close>

lemma volume_labels_None_iff:
  assumes "GET_shown_as req = None \<or> GET_shown_as req = Some ''Volume''"
  shows "se_labels (projr (serialize_entity w ident name ent flt req)) = None
           \<longleftrightarrow> filter (filter_events w req) (process_entity_for_events w ent) = []"
proof -
  let ?es = "process_entity_for_events w ent"
  have volume: "(case GET_shown_as req of None \<Rightarrow> ''Volume'' | Some s \<Rightarrow> s) = ''Volume''"
    using assms by auto
  have rows: "day_aggregates w ?es flt req = [] \<longleftrightarrow> filter (filter_events w req) ?es = []"
    by (simp add: day_aggregates_rows distinct_values_def)
  show ?thesis
  proof (cases "day_aggregates w ?es flt req")
    case Nil
    then have "aggregate_by_day w ?es flt req
        = Inr (if present (GET_breakdown req)
               then breakdown w empty_append ?es flt req (the (GET_breakdown req))
               else empty_append)"
      by (simp add: aggregate_by_day_def Let_def)
    then have "se_labels (projr (serialize_entity w ident name ent flt req)) = None"
      using volume
      by (simp add: serialize_entity_def Let_def update_append_def breakdown_fields
          empty_append_def)
    with Nil rows show ?thesis by simp
  next
    case (Cons first rest)
    obtain date_from date_to where "get_dates_from_request w req = (date_from, date_to)"
      by (cases "get_dates_from_request w req")
    from aggregate_by_day_series[OF Cons this]
    have "se_labels (projr (serialize_entity w ident name ent flt req)) \<noteq> None"
      using volume
      by (simp add: serialize_entity_def Let_def update_append_def breakdown_fields
          append_data_fields)
    with Cons rows show ?thesis by simp
  qed
qed

lemma find_SomeD: "find P xs = Some x \<Longrightarrow> x \<in> set xs \<and> P x"
  by (induction xs) (auto split: if_splits)

text \<open>
  C7. Unless the request is a stickiness request with \<open>date_from = all\<close> (which raises,
  C10), \<^verbatim>\<open>trends\<close> returns a list: first the results of the requested events, in request
  order, those without a series (without the key \<^verbatim>\<open>labels\<close>) left out; then the results of
  the requested actions, in request order, each one included whatever it holds, an unknown
  id being passed over; or, when the request names neither actions nor events, the results
  of the actions of the team that are not deleted, by descending id. In Volume mode an
  event has no series exactly when it has no matching event.
\<close>

theorem trends_order_and_omissions:
  assumes "\<not> (GET_shown_as req = Some ''Stickiness'' \<and> GET_date_from req = Some ''all'')"
  shows "trends w req =
           Inr (filter (\<lambda>s. se_labels s \<noteq> None)
                  (map (\<lambda>ev. projr (event_result w req ev)) (requested_events req))
                @ (if nonempty (GET_actions req)
                   then map (\<lambda>(flt, a). projr (action_result w req flt a))
                          (requested_actions w req)
                   else if GET_events req = None
                   then map (\<lambda>a. projr (action_result w req no_filters a)) (known_actions w req)
                   else []))
         \<and> (\<forall>ev \<in> set (requested_events req). \<exists>s. event_result w req ev = Inr s)
         \<and> (\<forall>(flt, a) \<in> set (requested_actions w req). \<exists>s. action_result w req flt a = Inr s)
         \<and> (\<forall>(flt, a) \<in> set (requested_actions w req).
               a \<in> set (known_actions w req) \<and> a_id a = f_id flt)
         \<and> (GET_shown_as req = None \<or> GET_shown_as req = Some ''Volume'' \<longrightarrow>
               (\<forall>ev \<in> set (requested_events req).
                  se_labels (projr (event_result w req ev)) = None
                    \<longleftrightarrow> filter (filter_events w req)
                          (filter_by_event_with_people w (f_id ev)) = []))"
proof -
  let ?events = "filter (\<lambda>s. se_labels s \<noteq> None)
                  (map (\<lambda>ev. projr (event_result w req ev)) (requested_events req))"
  have events: "(if nonempty (GET_events req) then trends_events w req (the (GET_events req)) []
                 else Inr []) = Inr ?events"
  proof (cases "GET_events req")
    case None
    then show ?thesis by (simp add: nonempty_def requested_events_def)
  next
    case (Some evs)
    then show ?thesis
      by (cases "evs = []")
         (simp_all add: nonempty_def requested_events_def trends_events_eq[OF assms]
            del: trends_events.simps)
  qed
  have actions: "nonempty (GET_actions req) \<Longrightarrow>
      trends_actions w req (known_actions w req) (the (GET_actions req)) ?events
        = Inr (?events @ map (\<lambda>(flt, a). projr (action_result w req flt a))
                           (requested_actions w req))"
    by (cases "GET_actions req")
       (simp_all add: nonempty_def requested_actions_def trends_actions_eq[OF assms]
          del: trends_actions.simps)
  have result: "trends w req =
           Inr (?events
                @ (if nonempty (GET_actions req)
                   then map (\<lambda>(flt, a). projr (action_result w req flt a))
                          (requested_actions w req)
                   else if GET_events req = None
                   then map (\<lambda>a. projr (action_result w req no_filters a)) (known_actions w req)
                   else []))"
    unfolding trends_def Let_def events
    by (simp add: actions trends_default_eq[OF assms] known_actions_def[symmetric]
        del: trends_default.simps trends_actions.simps trends_events.simps not_None_eq)
  have ev_ok: "\<forall>ev \<in> set (requested_events req). \<exists>s. event_result w req ev = Inr s"
    unfolding event_result_def using serialize_entity_total[OF assms] by blast
  have ac_ok: "\<forall>(flt, a) \<in> set (requested_actions w req). \<exists>s. action_result w req flt a = Inr s"
    unfolding action_result_def using serialize_entity_total[OF assms] by blast
  have found: "\<forall>(flt, a) \<in> set (requested_actions w req).
      a \<in> set (known_actions w req) \<and> a_id a = f_id flt"
    by (auto simp: requested_actions_def split: option.splits dest: find_SomeD[OF sym])
  have series: "GET_shown_as req = None \<or> GET_shown_as req = Some ''Volume'' \<longrightarrow>
      (\<forall>ev \<in> set (requested_events req).
         se_labels (projr (event_result w req ev)) = None
           \<longleftrightarrow> filter (filter_events w req) (filter_by_event_with_people w (f_id ev)) = [])"
  proof (intro impI ballI)
    fix ev
    assume volume: "GET_shown_as req = None \<or> GET_shown_as req = Some ''Volume''"
    show "se_labels (projr (event_result w req ev)) = None
           \<longleftrightarrow> filter (filter_events w req) (filter_by_event_with_people w (f_id ev)) = []"
      unfolding event_result_def
      using volume_labels_None_iff[OF volume, of w "f_id ev" "f_id ev" "EventEntity ev" ev]
      by (simp add: process_entity_for_events_def)
  qed
  from result ev_ok ac_ok found series show ?thesis by blast
qed

theorem trends_order_and_omissions_witness:
  "\<not> (GET_shown_as example_trends_request = Some ''Stickiness''
        \<and> GET_date_from example_trends_request = Some ''all'')
   \<and> map (\<lambda>s. (se_id s, se_type s, se_labels s \<noteq> None))
        (projr (trends (example_world scenario_1_events) example_trends_request))
       = [(StrV ''$pageview'', ''events'', True), (NumV 2, ''actions'', False),
          (NumV 1, ''actions'', True)]
   \<and> isl (trends (example_world scenario_1_events) example_trends_request) = False"
proof -
  let ?w = "example_world scenario_1_events"
  let ?req = "example_trends_request"
  have ok: "\<not> (GET_shown_as ?req = Some ''Stickiness'' \<and> GET_date_from ?req = Some ''all'')"
    by code_simp
  have actions: "nonempty (GET_actions ?req)"
    by code_simp
  have shape: "map (\<lambda>s. (se_id s, se_type s, se_labels s \<noteq> None))
      (filter (\<lambda>s. se_labels s \<noteq> None)
          (map (\<lambda>ev. projr (event_result ?w ?req ev)) (requested_events ?req))
        @ map (\<lambda>(flt, a). projr (action_result ?w ?req flt a)) (requested_actions ?w ?req))
      = [(StrV ''$pageview'', ''events'', True), (NumV 2, ''actions'', False),
         (NumV 1, ''actions'', True)]"
    by code_simp
  from trends_order_and_omissions[OF ok, of ?w, THEN conjunct1]
  have "trends ?w ?req
      = Inr (filter (\<lambda>s. se_labels s \<noteq> None)
          (map (\<lambda>ev. projr (event_result ?w ?req ev)) (requested_events ?req))
        @ map (\<lambda>(flt, a). projr (action_result ?w ?req flt a)) (requested_actions ?w ?req))"
    using actions by simp
  then show ?thesis
    using ok shape by simp
qed

section \<open>Claims on the people resolver\<close>

lemma people_rows_distinct:
  assumes "people_rows w req es = Inr ids"
  shows "distinct ids"
proof -
  have "distinct (map fst (filter P (person_day_counts es)))" for P
    by (rule distinct_map_filter)
       (simp add: person_day_counts_eq comp_def distinct_distinct_values)
  with assms show ?thesis
    by (auto simp: people_rows_def distinct_distinct_values
        split: if_splits option.splits)
qed

lemma loaded_people_le:
  assumes "distinct (map p_id ps)"
  shows "length (filter (\<lambda>q. T q \<and> p_id q \<in> set ids) ps) \<le> length ids"
proof -
  let ?Q = "filter (\<lambda>q. T q \<and> p_id q \<in> set ids) ps"
  have "distinct (map p_id ?Q)"
    using assms by (rule distinct_map_filter)
  then have "length ?Q = card (set (map p_id ?Q))"
    by (metis distinct_card length_map)
  also have "\<dots> \<le> card (set ids)"
    by (intro card_mono) auto
  also have "\<dots> \<le> length ids"
    by (rule card_length)
  finally show ?thesis .
qed

lemma loaded_people_eq:
  assumes "distinct (map p_id ps)" "distinct ids"
    and "\<And>i. i \<in> set ids \<Longrightarrow> \<exists>q \<in> set ps. p_id q = i \<and> T q"
  shows "length (filter (\<lambda>q. T q \<and> p_id q \<in> set ids) ps) = length ids"
proof -
  let ?Q = "filter (\<lambda>q. T q \<and> p_id q \<in> set ids) ps"
  have "distinct (map p_id ?Q)"
    using assms(1) by (rule distinct_map_filter)
  then have "length ?Q = card (set (map p_id ?Q))"
    by (metis distinct_card length_map)
  also have "set (map p_id ?Q) = set ids"
    using assms(3) by (auto simp: image_iff)
  also have "card (set ids) = length ids"
    using assms(2) by (rule distinct_card)
  finally show ?thesis .
qed

lemma calculate_people_Inr:
  assumes "calculate_people w req ident name es = Inr p"
  shows "\<exists>ids. people_rows w req es = Inr ids
           \<and> pe_people p = filter (\<lambda>q. p_team q = team w \<and> p_id q \<in> set (take 100 ids))
                              (Person_objects w)
           \<and> pe_count p = length (pe_people p)
           \<and> pe_id p = ident \<and> pe_name p = name"
  using assms
  by (auto simp: calculate_people_def serialize_people_def Let_def split: sum.splits)

lemma people_Inr:
  assumes "people w req = Inr ps" "p \<in> set ps"
  shows "\<exists>ident name es. calculate_people w req ident name es = Inr p"
  using assms
  by (auto simp: people_def Let_def split: if_splits sum.splits option.splits) blast+

lemma volume_rows:
  assumes "GET_shown_as req = None \<or> GET_shown_as req = Some ''Volume''"
  shows "people_rows w req es = Inr (distinct_values (map person_id es))"
  using assms by (auto simp: people_rows_def)

lemma length_distinct_values: "length (distinct_values (map person_id es)) = length (actors es)"
  by (simp add: distinct_values_def actors_def length_remdups_card_conv)

text \<open>
  C8. The ids handed to the People Store are the first 100 rows of the query, so at most
  100; the count of the result is the number of the profiles it carries, at most 100 (a
  primary key names one person). In Volume mode with at least 100 distinct matching actors,
  each with a profile in the team, the count is 100; so it is for the 150 actors of
  Scenario 4.
\<close>

theorem people_capped_at_100:
  assumes pk: "distinct (map p_id (Person_objects w))"
  shows "(calculate_people w req ident name es = Inr p \<longrightarrow>
            (\<exists>ids. people_rows w req es = Inr ids
               \<and> length (take 100 ids) \<le> 100
               \<and> pe_people p = filter (\<lambda>q. p_team q = team w \<and> p_id q \<in> set (take 100 ids))
                                  (Person_objects w))
            \<and> pe_count p = length (pe_people p)
            \<and> pe_count p \<le> 100)
       \<and> (people w req = Inr ps \<longrightarrow>
            (\<forall>p' \<in> set ps. pe_count p' = length (pe_people p') \<and> pe_count p' \<le> 100))
       \<and> ((GET_shown_as req = None \<or> GET_shown_as req = Some ''Volume'')
            \<and> 100 \<le> length (actors es)
            \<and> (\<forall>i \<in> set (actors es).
                  \<exists>q \<in> set (Person_objects w). p_id q = i \<and> p_team q = team w) \<longrightarrow>
            (\<exists>p'. calculate_people w req ident name es = Inr p' \<and> pe_count p' = 100))"
proof -
  have capped: "pe_count p' = length (pe_people p') \<and> pe_count p' \<le> 100
      \<and> (\<exists>ids. people_rows w req es' = Inr ids
               \<and> length (take 100 ids) \<le> 100
               \<and> pe_people p' = filter (\<lambda>q. p_team q = team w \<and> p_id q \<in> set (take 100 ids))
                                  (Person_objects w))"
    if "calculate_people w req ident' name' es' = Inr p'" for ident' name' es' p'
  proof -
    from calculate_people_Inr[OF that] obtain ids where ids:
      "people_rows w req es' = Inr ids"
      "pe_people p' = filter (\<lambda>q. p_team q = team w \<and> p_id q \<in> set (take 100 ids))
                              (Person_objects w)"
      "pe_count p' = length (pe_people p')"
      by blast
    have "length (pe_people p') \<le> length (take 100 ids)"
      unfolding ids(2) using pk by (rule loaded_people_le)
    then have "pe_count p' \<le> 100"
      using ids(3) by simp
    with ids show ?thesis by auto
  qed
  have endpoint: "pe_count p' = length (pe_people p') \<and> pe_count p' \<le> 100"
    if "people w req = Inr ps" "p' \<in> set ps" for p'
    using people_Inr[OF that] capped by blast
  have scenario: "\<exists>p'. calculate_people w req ident name es = Inr p' \<and> pe_count p' = 100"
    if volume: "GET_shown_as req = None \<or> GET_shown_as req = Some ''Volume''"
      and many: "100 \<le> length (actors es)"
      and profiles: "\<forall>i \<in> set (actors es).
                  \<exists>q \<in> set (Person_objects w). p_id q = i \<and> p_team q = team w"
  proof -
    let ?ids = "distinct_values (map person_id es)"
    let ?people = "filter (\<lambda>q. p_team q = team w \<and> p_id q \<in> set (take 100 ?ids))
                     (Person_objects w)"
    have result: "calculate_people w req ident name es
        = Inr (serialize_people ident name ?people req)"
      by (simp add: calculate_people_def volume_rows[OF volume])
    have "set (take 100 ?ids) \<subseteq> set (actors es)"
      using set_take_subset[of 100 ?ids] by (simp add: set_distinct_values actors_def)
    with profiles have "\<exists>q \<in> set (Person_objects w). p_id q = i \<and> p_team q = team w"
      if "i \<in> set (take 100 ?ids)" for i
      using that by blast
    then have "\<exists>q \<in> set (Person_objects w). p_id q = i \<and> p_team q = team w"
      if "i \<in> set (take 100 ?ids)" for i
      using that by blast
    with pk have "length ?people = length (take 100 ?ids)"
      by (intro loaded_people_eq) (simp_all add: distinct_distinct_values)
    also have "\<dots> = 100"
      using many by (simp add: length_distinct_values)
    finally have "pe_count (serialize_people ident name ?people req) = 100"
      by (simp add: serialize_people_def)
    with result show ?thesis by blast
  qed
  show ?thesis
    using capped[of ident name es p] endpoint scenario by blast
qed

lemma scenario_4_matching:
  "filter (filter_events (example_world es) scenario_4_request) scenario_4_events
     = scenario_4_events"
proof -
  have "filter_events (example_world es) scenario_4_request
          (example_event p (jan2020 1) 1000000 [])" for p
    by (simp add: filter_events_def get_dates_from_request_def present_def
        scenario_4_request_def example_request_def example_world_def example_parse_def
        jan2020_def example_event_def midnight_def day_us_def)
  then show ?thesis
    unfolding scenario_4_events_def by (simp add: filter_map comp_def)
qed

lemma scenario_4_actors: "actors scenario_4_events = [0..<150]"
  by (simp add: actors_def scenario_4_events_def comp_def example_event_def)

theorem people_capped_at_100_witness:
  "distinct (map p_id (Person_objects (example_world scenario_4_events)))
   \<and> length (actors scenario_4_events) = 150
   \<and> (\<exists>p. people (example_world scenario_4_events) scenario_4_request = Inr [p]
         \<and> pe_count p = 100 \<and> length (pe_people p) = 100)"
proof -
  let ?w = "example_world scenario_4_events"
  let ?req = "scenario_4_request"
  let ?ident = "StrV ''$pageview''"
  have pk: "distinct (map p_id (Person_objects ?w))"
    by (simp add: example_world_def comp_def)
  have volume: "GET_shown_as ?req = None \<or> GET_shown_as ?req = Some ''Volume''"
    by (simp add: scenario_4_request_def example_request_def)
  have many: "100 \<le> length (actors scenario_4_events)"
    by (simp add: scenario_4_actors)
  have profiles: "\<forall>i \<in> set (actors scenario_4_events).
      \<exists>q \<in> set (Person_objects ?w). p_id q = i \<and> p_team q = team ?w"
    unfolding scenario_4_actors by (auto simp: example_world_def)
  from people_capped_at_100[OF pk, of ?req ?ident ?ident scenario_4_events]
    volume many profiles
  obtain p where p: "calculate_people ?w ?req ?ident ?ident scenario_4_events = Inr p"
    "pe_count p = 100"
    by blast
  from people_capped_at_100[OF pk, of ?req ?ident ?ident scenario_4_events p] p(1)
  have "pe_count p = length (pe_people p)"
    by blast
  moreover have "people ?w ?req = Inr [p]"
  proof -
    have "process_entity_for_events ?w (EventEntity \<lparr>f_id = ?ident, f_math = None\<rparr>)
        = scenario_4_events"
      by (simp add: process_entity_for_events_def example_world_def)
    moreover have "GET_type ?req = Some ''events''" "GET_entityId ?req = Some ''$pageview''"
      by (simp_all add: scenario_4_request_def example_request_def)
    ultimately show ?thesis
      by (simp add: people_def Let_def scenario_4_matching p(1))
  qed
  ultimately show ?thesis
    using pk p(2) by (simp add: scenario_4_actors)
qed

lemma stickiness_rows:
  assumes "GET_shown_as req = Some ''Stickiness''"
    and "GET_stickiness_days req = Some s" "py_int w s = Some k"
  shows "people_rows w req es
           = Inr (map fst (filter (\<lambda>r. snd r = k) (person_day_counts es)))"
  using assms by (simp add: people_rows_def)

lemma stickiness_rows_missing:
  assumes "GET_shown_as req = Some ''Stickiness''" "GET_stickiness_days req = None"
  shows "people_rows w req es = Inl (KeyError ''stickiness_days'')"
  using assms by (simp add: people_rows_def)

lemma set_rows_with_day_count:
  "set (map fst (filter (\<lambda>r. snd r = k) (person_day_counts es)))
     = {a \<in> set (actors es). int (length (active_days es a)) = k}"
  by (auto simp: person_day_counts_eq set_distinct_values actors_def image_iff)

text \<open>
  C9. In a people query shown as Stickiness, reading the missing parameter
  \<^verbatim>\<open>stickiness_days\<close> raises the \<^verbatim>\<open>KeyError\<close> of the query dictionary, which nothing
  catches: \<^verbatim>\<open>_calculate_people\<close> raises, and so does \<^verbatim>\<open>people\<close> for an event and for a
  known action. When the parameter is an integer \<open>k\<close>, the rows selected are those of the
  actors with exactly \<open>k\<close> distinct active days, each once; their first 100 are loaded.
\<close>

theorem stickiness_people_days:
  assumes "GET_shown_as req = Some ''Stickiness''"
  shows "(GET_stickiness_days req = None \<longrightarrow>
            calculate_people w req ident name es = Inl (KeyError ''stickiness_days'')
          \<and> (GET_type req = Some ''events'' \<longrightarrow>
               people w req = Inl (KeyError ''stickiness_days''))
          \<and> (GET_type req = Some ''actions'' \<and> GET_entityId req = Some s'
               \<and> py_int w s' = Some pk
               \<and> find (\<lambda>a. int (a_id a) = pk) (filter (\<lambda>a. \<not> deleted a) (Action_objects w))
                   = Some a \<longrightarrow>
               people w req = Inl (KeyError ''stickiness_days'')))
       \<and> (GET_stickiness_days req = Some s \<and> py_int w s = Some k \<longrightarrow>
            (\<exists>ids p. people_rows w req es = Inr ids
               \<and> distinct ids
               \<and> set ids = {a \<in> set (actors es). int (length (active_days es a)) = k}
               \<and> calculate_people w req ident name es = Inr p
               \<and> pe_people p = filter (\<lambda>q. p_team q = team w \<and> p_id q \<in> set (take 100 ids))
                                  (Person_objects w)))"
proof (intro conjI impI)
  assume missing: "GET_stickiness_days req = None"
  have raised: "calculate_people w req i n es' = Inl (KeyError ''stickiness_days'')" for i n es'
    by (simp add: calculate_people_def stickiness_rows_missing[OF assms missing])
  show "calculate_people w req ident name es = Inl (KeyError ''stickiness_days'')"
    by (rule raised)
  show "people w req = Inl (KeyError ''stickiness_days'')" if "GET_type req = Some ''events''"
    using that by (simp add: people_def Let_def raised)
  show "people w req = Inl (KeyError ''stickiness_days'')"
    if "GET_type req = Some ''actions'' \<and> GET_entityId req = Some s'
               \<and> py_int w s' = Some pk
               \<and> find (\<lambda>a. int (a_id a) = pk) (filter (\<lambda>a. \<not> deleted a) (Action_objects w))
                   = Some a"
    using that by (simp add: people_def Let_def raised)
next
  assume "GET_stickiness_days req = Some s \<and> py_int w s = Some k"
  then have days: "GET_stickiness_days req = Some s" "py_int w s = Some k"
    by simp_all
  let ?ids = "map fst (filter (\<lambda>r. snd r = k) (person_day_counts es))"
  have rows: "people_rows w req es = Inr ?ids"
    by (rule stickiness_rows[OF assms days])
  moreover have "distinct ?ids"
    using rows by (rule people_rows_distinct)
  moreover have "set ?ids = {a \<in> set (actors es). int (length (active_days es a)) = k}"
    by (rule set_rows_with_day_count)
  moreover have "calculate_people w req ident name es
      = Inr (serialize_people ident name
               (filter (\<lambda>q. p_team q = team w \<and> p_id q \<in> set (take 100 ?ids))
                  (Person_objects w)) req)"
    by (simp add: calculate_people_def rows)
  moreover have "pe_people (serialize_people ident name
               (filter (\<lambda>q. p_team q = team w \<and> p_id q \<in> set (take 100 ?ids))
                  (Person_objects w)) req)
      = filter (\<lambda>q. p_team q = team w \<and> p_id q \<in> set (take 100 ?ids)) (Person_objects w)"
    by (simp add: serialize_people_def Let_def)
  ultimately show "\<exists>ids p. people_rows w req es = Inr ids
               \<and> distinct ids
               \<and> set ids = {a \<in> set (actors es). int (length (active_days es a)) = k}
               \<and> calculate_people w req ident name es = Inr p
               \<and> pe_people p = filter (\<lambda>q. p_team q = team w \<and> p_id q \<in> set (take 100 ids))
                                  (Person_objects w)"
    by blast
qed

theorem stickiness_people_days_witness:
  "GET_shown_as stickiness_people_request = Some ''Stickiness''
   \<and> GET_stickiness_days stickiness_people_request = None
   \<and> GET_type stickiness_people_request = Some ''events''
   \<and> people (example_world scenario_2_events) stickiness_people_request
       = Inl (KeyError ''stickiness_days'')
   \<and> py_int (example_world scenario_2_events) ''2'' = Some 2
   \<and> (\<exists>ids. people_rows (example_world scenario_2_events)
                (stickiness_people_request\<lparr>GET_stickiness_days := Some ''2''\<rparr>)
                scenario_2_events = Inr ids
         \<and> set ids = {1})"
proof -
  let ?w = "example_world scenario_2_events"
  let ?req = "stickiness_people_request"
  let ?req2 = "stickiness_people_request\<lparr>GET_stickiness_days := Some ''2''\<rparr>"
  have shown: "GET_shown_as ?req = Some ''Stickiness''" "GET_shown_as ?req2 = Some ''Stickiness''"
    by (simp_all add: stickiness_people_request_def)
  have missing: "GET_stickiness_days ?req = None"
    by (simp add: stickiness_people_request_def example_request_def)
  have events: "GET_type ?req = Some ''events''"
    by (simp add: stickiness_people_request_def)
  have given: "GET_stickiness_days ?req2 = Some ''2''" "py_int ?w ''2'' = Some 2"
    by (simp_all add: example_world_def example_int_def)
  have two_days: "{a \<in> set (actors scenario_2_events).
      int (length (active_days scenario_2_events a)) = 2} = {1}"
    by code_simp
  from stickiness_people_days[OF shown(1), where w = ?w] missing events
  have "people ?w ?req = Inl (KeyError ''stickiness_days'')"
    by blast
  moreover from stickiness_people_days[OF shown(2), where w = ?w and s = "''2''" and k = 2
      and es = scenario_2_events] given
  obtain ids where "people_rows ?w ?req2 scenario_2_events = Inr ids"
    "set ids = {a \<in> set (actors scenario_2_events).
      int (length (active_days scenario_2_events a)) = 2}"
    by blast
  ultimately show ?thesis
    using shown(1) missing events given(2) two_days by auto
qed

end
